theory Spec2Isabelle
  imports Complex_Main "HOL-Library.AList"
begin

section \<open>JavaScript numbers\<close>

text \<open>
  The page computes prices and yields with JavaScript numbers. A number is modelled as a
  finite value or one of the three special values of IEEE 754. Finite values are exact
  rationals: rounding, overflow to infinity and the sign of zero are not modelled. What
  is modelled exactly is the part the properties below depend on: which operations
  produce \<open>Infinity\<close> and \<open>NaN\<close>, and how these propagate.
\<close>

datatype jsnum = Num rat | PosInf | NegInf | NaN

text \<open>\<^verbatim>\<open>x / y\<close>\<close>

fun js_div :: "jsnum \<Rightarrow> jsnum \<Rightarrow> jsnum" where
  "js_div NaN _ = NaN"
| "js_div _ NaN = NaN"
| "js_div (Num a) (Num b) =
     (if b \<noteq> 0 then Num (a / b) else if a = 0 then NaN else if 0 < a then PosInf else NegInf)"
| "js_div (Num a) PosInf = Num 0"
| "js_div (Num a) NegInf = Num 0"
| "js_div PosInf (Num b) = (if 0 \<le> b then PosInf else NegInf)"
| "js_div NegInf (Num b) = (if 0 \<le> b then NegInf else PosInf)"
| "js_div _ _ = NaN"

text \<open>\<^verbatim>\<open>x * y\<close>\<close>

fun js_mul :: "jsnum \<Rightarrow> jsnum \<Rightarrow> jsnum" where
  "js_mul NaN _ = NaN"
| "js_mul _ NaN = NaN"
| "js_mul (Num a) (Num b) = Num (a * b)"
| "js_mul (Num a) PosInf = (if a = 0 then NaN else if 0 < a then PosInf else NegInf)"
| "js_mul (Num a) NegInf = (if a = 0 then NaN else if 0 < a then NegInf else PosInf)"
| "js_mul PosInf (Num b) = (if b = 0 then NaN else if 0 < b then PosInf else NegInf)"
| "js_mul NegInf (Num b) = (if b = 0 then NaN else if 0 < b then NegInf else PosInf)"
| "js_mul PosInf PosInf = PosInf"
| "js_mul NegInf NegInf = PosInf"
| "js_mul _ _ = NegInf"

text \<open>\<^verbatim>\<open>x - y\<close>\<close>

fun js_sub :: "jsnum \<Rightarrow> jsnum \<Rightarrow> jsnum" where
  "js_sub NaN _ = NaN"
| "js_sub _ NaN = NaN"
| "js_sub (Num a) (Num b) = Num (a - b)"
| "js_sub (Num a) PosInf = NegInf"
| "js_sub (Num a) NegInf = PosInf"
| "js_sub PosInf PosInf = NaN"
| "js_sub NegInf NegInf = NaN"
| "js_sub PosInf _ = PosInf"
| "js_sub NegInf _ = NegInf"

text \<open>\<^verbatim>\<open>x > y\<close>: false as soon as one side is \<open>NaN\<close>.\<close>

fun js_gt :: "jsnum \<Rightarrow> jsnum \<Rightarrow> bool" where
  "js_gt NaN _ = False"
| "js_gt _ NaN = False"
| "js_gt (Num a) (Num b) = (b < a)"
| "js_gt PosInf PosInf = False"
| "js_gt PosInf _ = True"
| "js_gt (Num a) NegInf = True"
| "js_gt _ _ = False"

text \<open>Truthiness of a number, as \<^verbatim>\<open>||\<close> tests it: \<open>0\<close> and \<open>NaN\<close> are falsy.\<close>

fun js_truthy :: "jsnum \<Rightarrow> bool" where
  "js_truthy (Num a) = (a \<noteq> 0)"
| "js_truthy NaN = False"
| "js_truthy _ = True"

text \<open>
  A property that may be absent has an option type: \<open>None\<close> is \<open>undefined\<close>.
  \<open>to_number\<close> is the conversion an arithmetic operator applies to its operand
  (\<open>undefined\<close> becomes \<open>NaN\<close>), and \<open>str_truthy\<close> the truthiness of an optional
  string (\<open>undefined\<close> and the empty string are falsy).
\<close>

definition to_number :: "jsnum option \<Rightarrow> jsnum" where
  "to_number v = (case v of None \<Rightarrow> NaN | Some x \<Rightarrow> x)"

definition str_truthy :: "string option \<Rightarrow> bool" where
  "str_truthy v = (case v of None \<Rightarrow> False | Some s \<Rightarrow> s \<noteq> [])"

text \<open>\<^verbatim>\<open>a || b\<close> on optional strings.\<close>

definition str_or :: "string option \<Rightarrow> string option \<Rightarrow> string option" where
  "str_or a b = (if str_truthy a then a else b)"

text \<open>
  \<^verbatim>\<open>x.toFixed(d)\<close>. A value that is not finite is rendered by its name; the digits of a
  finite value are produced by the host, here the parameter \<open>digits\<close>.
\<close>

fun toFixed :: "(rat \<Rightarrow> nat \<Rightarrow> string) \<Rightarrow> jsnum \<Rightarrow> nat \<Rightarrow> string" where
  "toFixed digits (Num a) d = digits a d"
| "toFixed digits PosInf d = ''Infinity''"
| "toFixed digits NegInf d = ''-Infinity''"
| "toFixed digits NaN d = ''NaN''"

section \<open>Data model\<close>

text \<open>A token of the registry as the cache stores it (\<^verbatim>\<open>CachedToken\<close>).\<close>

record CachedToken =
  tokenAddress :: string
  shortName :: "string option"
  fullName :: "string option"
  tokenPrice :: "jsnum option"
  netRentYear :: "jsnum option"
  imageLink :: "string list option"
  marketplaceLink :: "string option"
  totalTokens :: "jsnum option"
  rentStartDate :: "string option"

datatype chain_name = Gnosis | Ethereum

datatype offer_status = Active | Sold | Cancelled

text \<open>
  The raw offer (\<^verbatim>\<open>YamOffer\<close>). \<open>price\<close> and \<open>amount\<close> hold the decimal rendering of
  an unsigned 256-bit integer (\<^verbatim>\<open>priceBN.toString()\<close>); they are modelled by the number
  itself.
\<close>

record YamOffer =
  offerId :: string
  buyerTokenAddress :: string
  offerTokenAddress :: string
  buyerAddress :: string
  price :: nat
  amount :: nat
  type :: nat
  createdAt :: string
  removedAt :: "string option"
  offerTokenDecimals :: "nat option"
  buyerTokenDecimals :: "nat option"

text \<open>
  The enriched offer (\<^verbatim>\<open>Offer\<close>). \<open>createdAt\<close> holds the instant, in milliseconds
  since the epoch, whose ISO rendering the page stores.
\<close>

record Offer =
  id' :: string
  price :: string
  reversePrice :: string
  amount :: string
  seller :: string
  status :: offer_status
  createdAt :: int
  chain :: chain_name
  tokenDetails :: "CachedToken option"
  offerAddress :: string
  offerDecimals :: "nat option"
  offerSymbol :: "string option"
  buyerAddress :: "string"
  buyerDecimals :: "nat option"
  buyerSymbol :: "string option"
  officialPriceUsd :: "jsnum option"
  priceDiff :: "jsnum option"
  priceDiffPct :: "jsnum option"
  offerYieldPct :: "jsnum option"
  officialYieldPct :: "jsnum option"
  offerYieldDiff :: "jsnum option"
  offerYieldDiffPct :: "jsnum option"

section \<open>Maximum purchasable amount\<close>

text \<open>
  \<^verbatim>\<open>handleSetMaxAmount\<close> works on big integers. \<open>bn_div\<close> is the division of the big-number
  class: it truncates towards zero, and the caller sees an exception for a zero divisor.
  \<^verbatim>\<open>parseUnits\<close> is a function of the ethers library and is taken as a parameter:
  \<open>parseUnits s d\<close> is the value of the decimal string \<open>s\<close> scaled by \<open>10 ^ d\<close>, and
  \<open>None\<close> when the library throws (not a decimal string, or more than \<open>d\<close> decimals).
\<close>

definition PRECISION :: nat where
  "PRECISION = 6"

definition bn_div :: "int \<Rightarrow> int \<Rightarrow> int" where
  "bn_div a b = sgn a * sgn b * (\<bar>a\<bar> div \<bar>b\<bar>)"

datatype bn_error = NumericFault | DivisionByZero

text \<open>
  The result is the big integer \<^verbatim>\<open>maxAmountBN\<close> that the handler formats and stores as
  the purchase amount; \<open>Inr None\<close> is the early return, which stores nothing. The balance
  is a big-number object, which is always truthy, so only a missing offer returns early.
\<close>

definition handleSetMaxAmount ::
  "(string \<Rightarrow> nat \<Rightarrow> int option) \<Rightarrow> Offer option \<Rightarrow> int \<Rightarrow> bn_error + int option" where
  "handleSetMaxAmount parseUnits offer balance =
     (case offer of
        None \<Rightarrow> Inr None
      | Some off \<Rightarrow>
          (case parseUnits (Offer.price off) PRECISION of
             None \<Rightarrow> Inl NumericFault
           | Some priceBN \<Rightarrow>
               (let balanceScaled = balance * 10 ^ PRECISION in
                if priceBN = 0 then Inl DivisionByZero
                else
                  (let maxAmountFromBalanceBN = bn_div balanceScaled priceBN in
                   (case parseUnits (Offer.amount off) PRECISION of
                      None \<Rightarrow> Inl NumericFault
                    | Some offerAmountBN \<Rightarrow>
                        Inr (Some (if maxAmountFromBalanceBN < offerAmountBN
                                   then maxAmountFromBalanceBN else offerAmountBN)))))))"

section \<open>Strings\<close>

text \<open>
  \<^verbatim>\<open>s.toLowerCase()\<close> on the ASCII letters, which is all an address contains.
\<close>

definition lower_char :: "char \<Rightarrow> char" where
  "lower_char c =
     (case map_of (zip ''ABCDEFGHIJKLMNOPQRSTUVWXYZ'' ''abcdefghijklmnopqrstuvwxyz'') c of
        None \<Rightarrow> c
      | Some l \<Rightarrow> l)"

definition toLowerCase :: "string \<Rightarrow> string" where
  "toLowerCase s = map lower_char s"

section \<open>The cache service\<close>

text \<open>
  The cache file (\<^verbatim>\<open>CacheFile\<close>). \<open>tokens\<close> is a JavaScript object used as a
  dictionary: an association list in insertion order, where assigning to a key that is
  present replaces its value in place (\<open>AList.update\<close>).
\<close>

record CacheFile =
  lastUpdated :: int
  tokens :: "(string \<times> CachedToken) list"

definition CACHE_MAX_AGE_MS :: int where
  "CACHE_MAX_AGE_MS = 24 * 60 * 60 * 1000"

text \<open>
  The disk holds the cache file, if there is one that can be read and parsed, and may
  refuse writes. \<^verbatim>\<open>readCache\<close> catches every error and returns \<open>null\<close> for it.
\<close>

record disk =
  cache_file :: "CacheFile option"
  writable :: bool

datatype api_error = MissingBaseUrl | MissingApiKey | WriteFailed

definition readCache :: "disk \<Rightarrow> CacheFile option" where
  "readCache d = cache_file d"

definition writeCache :: "int \<Rightarrow> (string \<times> CachedToken) list \<Rightarrow> disk \<Rightarrow> api_error + disk" where
  "writeCache now toks d =
     (if writable d then Inr (d\<lparr>cache_file := Some \<lparr>lastUpdated = now, tokens = toks\<rparr>\<rparr>)
      else Inl WriteFailed)"

definition isCacheValid :: "int \<Rightarrow> CacheFile option \<Rightarrow> bool" where
  "isCacheValid now cache =
     (case cache of None \<Rightarrow> False | Some c \<Rightarrow> now - lastUpdated c < CACHE_MAX_AGE_MS)"

text \<open>
  A token as the registry sends it. The registry's answer is untyped in the source; the
  fields listed are the ones \<^verbatim>\<open>fetchAllTokens\<close> reads.
\<close>

record ApiToken =
  tokenAddress :: "string option"
  address :: "string option"
  contractAddress :: "string option"
  ethereumContract :: "string option"
  xDaiContract :: "string option"
  gnosisContract :: "string option"
  shortName :: "string option"
  fullName :: "string option"
  tokenPrice :: "jsnum option"
  netRentYear :: "jsnum option"
  imageLink :: "string list option"
  marketplaceLink :: "string option"
  totalTokens :: "jsnum option"
  rentStartDate :: "string option"

text \<open>
  What the request to the registry's \<^verbatim>\<open>/tokens\<close> produces: the request itself is
  rejected (the registry cannot be reached), or a response arrives with a status and a
  body, which is an array of tokens, some other JSON value, or not JSON at all.
\<close>

datatype json_body = JsonArray "ApiToken list" | JsonOther | JsonInvalid

datatype upstream = FetchRejected | Response nat json_body

definition response_ok :: "nat \<Rightarrow> bool" where
  "response_ok st = (200 \<le> st \<and> st \<le> 299)"

record process_env =
  NEXT_PUBLIC_COMMUNITY_API_URI :: "string option"
  COMMUNITY_API_URI :: "string option"
  COMMUNITY_API_KEY :: "string option"

text \<open>
  The inner \<^verbatim>\<open>try\<close> of \<^verbatim>\<open>fetchAllTokens\<close>: \<^verbatim>\<open>allTokens\<close> starts as the empty array
  and receives the body only when the body is an array and the status is a success or
  301. Every other outcome throws inside the \<^verbatim>\<open>try\<close> or logs (status 404); the
  \<^verbatim>\<open>catch\<close> stores the error in \<^verbatim>\<open>lastError\<close>, which nothing reads, and the function
  goes on with the empty array.
\<close>

definition allTokens :: "upstream \<Rightarrow> ApiToken list" where
  "allTokens up =
     (case up of
        FetchRejected \<Rightarrow> []
      | Response st b \<Rightarrow>
          (case b of
             JsonInvalid \<Rightarrow> []
           | JsonOther \<Rightarrow> []
           | JsonArray ts \<Rightarrow> if response_ok st \<or> st = 301 then ts else []))"

text \<open>The first truthy one of the six address fields, in the order of the source.\<close>

definition token_address :: "ApiToken \<Rightarrow> string option" where
  "token_address t =
     str_or (ApiToken.tokenAddress t)
       (str_or (address t)
          (str_or (contractAddress t)
             (str_or (ethereumContract t)
                (str_or (xDaiContract t) (gnosisContract t)))))"

definition cached_fields :: "ApiToken \<Rightarrow> string \<Rightarrow> CachedToken" where
  "cached_fields t a =
     \<lparr> CachedToken.tokenAddress = a,
       CachedToken.shortName = ApiToken.shortName t,
       CachedToken.fullName = ApiToken.fullName t,
       CachedToken.tokenPrice = ApiToken.tokenPrice t,
       CachedToken.netRentYear = ApiToken.netRentYear t,
       CachedToken.imageLink = ApiToken.imageLink t,
       CachedToken.marketplaceLink = ApiToken.marketplaceLink t,
       CachedToken.totalTokens = ApiToken.totalTokens t,
       CachedToken.rentStartDate = ApiToken.rentStartDate t \<rparr>"

text \<open>The loop over \<^verbatim>\<open>allTokens\<close>; a token without an address is skipped.\<close>

fun cachedTokens :: "ApiToken list \<Rightarrow> (string \<times> CachedToken) list \<Rightarrow> (string \<times> CachedToken) list" where
  "cachedTokens [] acc = acc"
| "cachedTokens (t # ts) acc =
     (case token_address t of
        None \<Rightarrow> cachedTokens ts acc
      | Some a \<Rightarrow>
          if a = [] then cachedTokens ts acc
          else cachedTokens ts (AList.update (toLowerCase a) (cached_fields t a) acc))"

definition fetchAllTokens :: "process_env \<Rightarrow> upstream \<Rightarrow> api_error + (string \<times> CachedToken) list" where
  "fetchAllTokens env up =
     (if \<not> str_truthy (str_or (NEXT_PUBLIC_COMMUNITY_API_URI env) (COMMUNITY_API_URI env))
      then Inl MissingBaseUrl
      else if \<not> str_truthy (COMMUNITY_API_KEY env) then Inl MissingApiKey
      else Inr (cachedTokens (allTokens up) []))"

text \<open>
  The request and the response of the route. Only the HTTP verb and the \<^verbatim>\<open>refresh\<close> query
  parameter of the request are read. A response body is the JSON of a cache file (or of
  \<open>null\<close>), the error object of a refused verb, or the empty cache with its error
  marker.
\<close>

record request =
  req_method :: string
  refresh :: "string option"

datatype payload =
    ErrorOnly string
  | CacheBody "CacheFile option"
  | EmptyWithError int string

record response =
  status :: nat
  body :: payload

text \<open>
  The readings of \<^verbatim>\<open>Date.now()\<close> that decide something, in program order: the two
  validity checks, the write, the body of the refreshed response, the body of the empty
  response.
\<close>

record clock =
  t_check1 :: int
  t_check2 :: int
  t_write :: int
  t_body :: int
  t_error :: int

text \<open>
  The refresh of the inner \<^verbatim>\<open>try\<close>: fetch, then write. Either step may throw, and the
  same \<^verbatim>\<open>catch\<close> receives both.
\<close>

definition refreshCache ::
  "process_env \<Rightarrow> upstream \<Rightarrow> clock \<Rightarrow> disk \<Rightarrow> api_error + (string \<times> CachedToken) list \<times> disk" where
  "refreshCache env up clk d =
     (case fetchAllTokens env up of
        Inl e \<Rightarrow> Inl e
      | Inr toks \<Rightarrow>
          (case writeCache (t_write clk) toks d of
             Inl e \<Rightarrow> Inl e
           | Inr d' \<Rightarrow> Inr (toks, d')))"

text \<open>The outer \<^verbatim>\<open>catch\<close>: any cache that can be read, else the empty cache.\<close>

definition lastResort :: "clock \<Rightarrow> disk \<Rightarrow> response" where
  "lastResort clk d =
     (case readCache d of
        Some staleCache \<Rightarrow> \<lparr>status = 200, body = CacheBody (Some staleCache)\<rparr>
      | None \<Rightarrow>
          \<lparr>status = 200, body = EmptyWithError (t_error clk) ''Cache temporarily unavailable''\<rparr>)"

text \<open>
  The route. It returns the response and the disk it leaves. The log lines of the source
  are left out.
\<close>

definition handler ::
  "process_env \<Rightarrow> upstream \<Rightarrow> clock \<Rightarrow> disk \<Rightarrow> request \<Rightarrow> response \<times> disk" where
  "handler env up clk d req =
     (if req_method req \<noteq> ''GET''
      then (\<lparr>status = 405, body = ErrorOnly ''Method not allowed''\<rparr>, d)
      else
        (let cache = readCache d;
             forceRefresh = (refresh req = Some ''true'');
             expired = (\<not> isCacheValid (t_check2 clk) cache)
         in
         if isCacheValid (t_check1 clk) cache \<and> \<not> forceRefresh
         then (\<lparr>status = 200, body = CacheBody cache\<rparr>, d)
         else if expired \<or> forceRefresh
         then
           (case refreshCache env up clk d of
              Inr (toks, d') \<Rightarrow>
                (\<lparr>status = 200,
                  body = CacheBody (Some \<lparr>lastUpdated = t_body clk, tokens = toks\<rparr>)\<rparr>, d')
            | Inl fetchError \<Rightarrow>
                (case cache of
                   Some c \<Rightarrow> (\<lparr>status = 200, body = CacheBody (Some c)\<rparr>, d)
                 | None \<Rightarrow> (lastResort clk d, d)))
         else (\<lparr>status = 200, body = CacheBody cache\<rparr>, d)))"

section \<open>The token cache of the page\<close>

text \<open>
  The static fields of \<^verbatim>\<open>RealTokenAPI\<close>. \<open>initializationPromise\<close> holds the number of
  the initialization that is running, if one is. Two counters that the source does not
  have record what the properties below are about: \<open>fetches\<close> counts the requests to
  the cache service issued so far (it also numbers the initializations), \<open>inflight\<close>
  those issued and not yet completed.
\<close>

record client =
  cache :: "string \<rightharpoonup> CachedToken"
  cacheTimestamp :: "int option"
  initializationPromise :: "nat option"
  fetches :: nat
  inflight :: nat

definition init_client :: client where
  "init_client =
     \<lparr> cache = Map.empty, cacheTimestamp = None, initializationPromise = None,
       fetches = 0, inflight = 0 \<rparr>"

text \<open>
  The first test of \<^verbatim>\<open>initializeCache\<close>: a timestamp that is set (and truthy, so not
  \<open>0\<close>) and younger than the maximal age.
\<close>

definition isFresh :: "client \<Rightarrow> int \<Rightarrow> bool" where
  "isFresh st now =
     (case cacheTimestamp st of
        None \<Rightarrow> False
      | Some ts \<Rightarrow> ts \<noteq> 0 \<and> now - ts < CACHE_MAX_AGE_MS)"

text \<open>
  What a caller of \<^verbatim>\<open>initializeCache\<close> receives: a promise that is already resolved, or
  the promise of the initialization with the given number.
\<close>

datatype ticket = Ready | Waiting nat

text \<open>
  The synchronous part of \<^verbatim>\<open>initializeCache\<close>, up to the first \<^verbatim>\<open>await\<close>: a new
  initialization issues its request before the call returns.
\<close>

definition initializeCache :: "int \<Rightarrow> client \<Rightarrow> ticket \<times> client" where
  "initializeCache now st =
     (if isFresh st now then (Ready, st)
      else
        (case initializationPromise st of
           Some p \<Rightarrow> (Waiting p, st)
         | None \<Rightarrow>
             (Waiting (fetches st),
              st\<lparr> initializationPromise := Some (fetches st),
                  fetches := fetches st + 1,
                  inflight := inflight st + 1 \<rparr>)))"

text \<open>What the request to the cache service produces.\<close>

datatype backend = FetchFailed | Replied nat payload

text \<open>
  \<^verbatim>\<open>cacheData?.tokens\<close> and \<^verbatim>\<open>cacheData.lastUpdated\<close> of a body. An object is truthy
  even when it is empty.
\<close>

definition payload_tokens :: "payload \<Rightarrow> (string \<times> CachedToken) list option" where
  "payload_tokens b =
     (case b of
        ErrorOnly e \<Rightarrow> None
      | CacheBody c \<Rightarrow> map_option tokens c
      | EmptyWithError t e \<Rightarrow> Some [])"

definition payload_lastUpdated :: "payload \<Rightarrow> int option" where
  "payload_lastUpdated b =
     (case b of
        ErrorOnly e \<Rightarrow> None
      | CacheBody c \<Rightarrow> map_option lastUpdated c
      | EmptyWithError t e \<Rightarrow> Some t)"

text \<open>The \<^verbatim>\<open>forEach\<close> that fills the map after \<^verbatim>\<open>clear()\<close>.\<close>

fun load_tokens :: "CachedToken list \<Rightarrow> (string \<rightharpoonup> CachedToken) \<Rightarrow> (string \<rightharpoonup> CachedToken)" where
  "load_tokens [] m = m"
| "load_tokens (t # ts) m =
     (if CachedToken.tokenAddress t \<noteq> []
      then load_tokens ts (m(toLowerCase (CachedToken.tokenAddress t) \<mapsto> t))
      else load_tokens ts m)"

text \<open>
  The rest of the initialization, which runs when the request completes; \<open>now\<close> is
  \<^verbatim>\<open>Date.now()\<close> at that moment. A request that fails, a body that is not JSON, a status
  that is not a success and a body without tokens all only set the timestamp. The
  \<^verbatim>\<open>finally\<close> clears the promise.
\<close>

definition loaded :: "int \<Rightarrow> backend \<Rightarrow> client \<Rightarrow> client" where
  "loaded now r st =
     (case r of
        FetchFailed \<Rightarrow> st\<lparr>cacheTimestamp := Some now\<rparr>
      | Replied code b \<Rightarrow>
          if response_ok code then
            (case payload_tokens b of
               Some toks \<Rightarrow>
                 st\<lparr> cache := load_tokens (map snd toks) Map.empty,
                     cacheTimestamp :=
                       Some (case payload_lastUpdated b of
                               None \<Rightarrow> now
                             | Some l \<Rightarrow> if l \<noteq> 0 then l else now) \<rparr>
             | None \<Rightarrow> st\<lparr>cacheTimestamp := Some now\<rparr>)
          else st\<lparr>cacheTimestamp := Some now\<rparr>)"

definition settle :: "int \<Rightarrow> backend \<Rightarrow> client \<Rightarrow> client" where
  "settle now r st =
     (if inflight st = 0 then st
      else (loaded now r st)\<lparr>initializationPromise := None, inflight := inflight st - 1\<rparr>)"

text \<open>\<^verbatim>\<open>getTokenDetails\<close> after its \<^verbatim>\<open>await\<close>: the lookup in the map.\<close>

definition getTokenDetails :: "(string \<rightharpoonup> CachedToken) \<Rightarrow> string \<Rightarrow> CachedToken option" where
  "getTokenDetails m a = m (toLowerCase a)"

text \<open>
  The page runs on one thread: between two \<^verbatim>\<open>await\<close>s nothing else runs. A caller of
  \<^verbatim>\<open>getTokenDetails\<close> calls \<^verbatim>\<open>initializeCache\<close> and awaits the promise it receives. On a
  promise that is already resolved it goes on before any other event and looks its
  address up in the map as it is. On the promise of a running initialization it is
  suspended, and goes on when that initialization has run to its end, again before any
  other event. A session is the cache of the page together with the suspended callers,
  each with the number of the initialization it waits for and the address it asks, and
  the results returned so far, each with the address asked, in the order of return.
\<close>

record session =
  api :: client
  waiting :: "(nat \<times> string) list"
  answers :: "(string \<times> CachedToken option) list"

definition init_session :: session where
  "init_session = \<lparr> api = init_client, waiting = [], answers = [] \<rparr>"

text \<open>A call of \<^verbatim>\<open>getTokenDetails\<close> at an instant, for an address, up to its return or its suspension.\<close>

definition lookup_call :: "int \<Rightarrow> string \<Rightarrow> session \<Rightarrow> session" where
  "lookup_call tm a s =
     (case initializeCache tm (api s) of
        (Ready, st) \<Rightarrow> s\<lparr>api := st, answers := answers s @ [(a, getTokenDetails (cache st) a)]\<rparr>
      | (Waiting p, st) \<Rightarrow> s\<lparr>api := st, waiting := waiting s @ [(p, a)]\<rparr>)"

text \<open>
  The completion of the request of the running initialization, at an instant and with an
  outcome: the initialization runs to its end, and the callers that wait for it return
  their lookups in the map it leaves.
\<close>

definition completion :: "int \<Rightarrow> backend \<Rightarrow> session \<Rightarrow> session" where
  "completion tm r s =
     (case initializationPromise (api s) of
        None \<Rightarrow> s
      | Some p \<Rightarrow>
          (let st = settle tm r (api s) in
           s\<lparr> api := st,
               waiting := filter (\<lambda>w. fst w \<noteq> p) (waiting s),
               answers := answers s
                 @ map (\<lambda>w. (snd w, getTokenDetails (cache st) (snd w)))
                     (filter (\<lambda>w. fst w = p) (waiting s)) \<rparr>))"

text \<open>The history of a page is a sequence of such events.\<close>

datatype event = Lookup int string | Completed int backend

fun step :: "event \<Rightarrow> session \<Rightarrow> session" where
  "step (Lookup tm a) s = lookup_call tm a s"
| "step (Completed tm r) s = completion tm r s"

fun run :: "event list \<Rightarrow> session \<Rightarrow> session" where
  "run [] s = s"
| "run (e # es) s = run es (step e s)"

text \<open>
  The invariant behind the single flight: a request is outstanding exactly when the
  promise is set, and every suspended caller waits for the running initialization.
\<close>

definition single_flight_inv :: "client \<Rightarrow> bool" where
  "single_flight_inv st = (inflight st = (if initializationPromise st = None then 0 else 1))"

definition session_inv :: "session \<Rightarrow> bool" where
  "session_inv s =
     (single_flight_inv (api s)
      \<and> (\<forall>w \<in> set (waiting s). initializationPromise (api s) = Some (fst w)))"

section \<open>Reading an offer from the chain\<close>

text \<open>
  The node behind a provider, as far as \<^verbatim>\<open>fetchOfferRpc\<close> uses it. A call that throws
  (the node fails, the contract reverts or does not have the function) is \<open>None\<close>.
  \<open>showOffer\<close> answers the six slots of the tuple, each of which the source reads
  with \<^verbatim>\<open>offerData?.[i]\<close>.
\<close>

record OfferData =
  slot0 :: "string option"
  slot1 :: "string option"
  slot2 :: "string option"
  slot3 :: "string option"
  slot4 :: "nat option"
  slot5 :: "nat option"

record rpc =
  getOfferCount :: "nat option"
  showOffer :: "rat \<Rightarrow> OfferData option"
  decimals :: "string \<Rightarrow> nat option"

definition MAX_SAFE_INTEGER :: nat where
  "MAX_SAFE_INTEGER = 9007199254740991"

text \<open>\<^verbatim>\<open>getDecimals\<close>: the \<^verbatim>\<open>catch\<close> answers 18.\<close>

definition getDecimals :: "rpc \<Rightarrow> string \<Rightarrow> nat" where
  "getDecimals node a = (case decimals node a of None \<Rightarrow> 18 | Some d \<Rightarrow> d)"

text \<open>\<^verbatim>\<open>token ? getDecimals(token) : Promise.resolve(18)\<close>\<close>

definition decimals_or_default :: "rpc \<Rightarrow> string option \<Rightarrow> nat" where
  "decimals_or_default node tok =
     (case tok of None \<Rightarrow> 18 | Some a \<Rightarrow> if a = [] then 18 else getDecimals node a)"

text \<open>\<^verbatim>\<open>v || ''\<close>\<close>

definition or_empty :: "string option \<Rightarrow> string" where
  "or_empty v = (case v of None \<Rightarrow> [] | Some a \<Rightarrow> a)"

text \<open>
  \<^verbatim>\<open>fetchOfferRpc\<close>. \<open>number_of\<close> is \<^verbatim>\<open>Number\<close> on strings. The bounds check is
  skipped when \<^verbatim>\<open>getOfferCount\<close> throws or its answer does not fit a number
  (\<^verbatim>\<open>toNumber\<close> throws). Every exception after that returns \<open>null\<close>.
\<close>

definition fetchOfferRpc ::
  "(string \<Rightarrow> jsnum) \<Rightarrow> (chain_name \<Rightarrow> rpc) \<Rightarrow> string \<Rightarrow> nat \<Rightarrow> YamOffer option" where
  "fetchOfferRpc number_of nodes oid chainId =
     (let node = nodes (if chainId = 100 then Gnosis else Ethereum) in
      case number_of oid of
        Num offerIdNum \<Rightarrow>
          if offerIdNum < 0 then None
          else if (case getOfferCount node of
                     None \<Rightarrow> False
                   | Some offerCount \<Rightarrow>
                       offerCount \<le> MAX_SAFE_INTEGER \<and> of_nat offerCount \<le> offerIdNum)
          then None
          else
            (case showOffer node offerIdNum of
               None \<Rightarrow> None
             | Some offerData \<Rightarrow>
                 (let value0 = slot0 offerData;
                      value1 = slot1 offerData;
                      seller = slot2 offerData;
                      priceBN = slot4 offerData;
                      amountBN = slot5 offerData;
                      offerToken = value0;
                      buyerToken = value1
                  in Some
                     \<lparr> offerId = oid,
                       buyerTokenAddress = or_empty buyerToken,
                       offerTokenAddress = or_empty offerToken,
                       YamOffer.buyerAddress = or_empty seller,
                       YamOffer.price = (case priceBN of None \<Rightarrow> 0 | Some v \<Rightarrow> v),
                       YamOffer.amount = (case amountBN of None \<Rightarrow> 0 | Some v \<Rightarrow> v),
                       type = 0,
                       YamOffer.createdAt = ''0'',
                       removedAt = None,
                       offerTokenDecimals = Some (decimals_or_default node offerToken),
                       buyerTokenDecimals = Some (decimals_or_default node buyerToken) \<rparr>))
      | _ \<Rightarrow> None)"

section \<open>Enrichment of an offer\<close>

record StableMeta =
  symbol :: string
  decimals :: nat
  name :: "string option"

definition STABLE_TOKENS :: "chain_name \<Rightarrow> (string \<times> StableMeta) list" where
  "STABLE_TOKENS c =
     (case c of
        Gnosis \<Rightarrow>
          [ (''0xe91d153e0b41518a2ce8dd3d7944fa863463a97d'',
               \<lparr>symbol = ''WXDAI'', decimals = 18, name = Some ''Wrapped xDAI''\<rparr>),
            (''0xddafbb505ad214d7b80b1f830fccc89b60fb7a83'',
               \<lparr>symbol = ''USDC'', decimals = 6, name = None\<rparr>),
            (''0x0ca4f5554dd9da6217d62d8df2816c82bba4157b'',
               \<lparr>symbol = ''armmv3WXDAI'', decimals = 18, name = None\<rparr>),
            (''0xed56f76e9cbc6a64b821e9c016eafbd3db5436d1'',
               \<lparr>symbol = ''armmv3USDC'', decimals = 6, name = None\<rparr>) ]
      | Ethereum \<Rightarrow> [])"

definition getStableMeta :: "chain_name \<Rightarrow> string \<Rightarrow> StableMeta option" where
  "getStableMeta c a = (if a = [] then None else map_of (STABLE_TOKENS c) (toLowerCase a))"

definition isStableToken :: "chain_name \<Rightarrow> string \<Rightarrow> bool" where
  "isStableToken c a = (getStableMeta c a \<noteq> None)"

text \<open>The answer of \<^verbatim>\<open>getErc20Meta\<close>: each of the two reads may fail on its own.\<close>

record Erc20Meta =
  name :: "string option"
  symbol :: "string option"

text \<open>
  What the page takes from its host: the digits of a finite number for \<^verbatim>\<open>toFixed\<close>,
  \<^verbatim>\<open>parseInt\<close> (\<open>None\<close> is \<open>NaN\<close>), \<^verbatim>\<open>parseFloat\<close>, the rendering of a number by
  \<^verbatim>\<open>toString\<close>, \<^verbatim>\<open>parseUnits\<close> and \<^verbatim>\<open>formatUnits\<close> of the ethers library, the ERC-20
  reads of \<^verbatim>\<open>getErc20Meta\<close>, and the instant that \<^verbatim>\<open>new Date()\<close> gives.
\<close>

record host =
  digits :: "rat \<Rightarrow> nat \<Rightarrow> string"
  parseInt :: "string \<Rightarrow> int option"
  parseFloat :: "string \<Rightarrow> jsnum"
  numToString :: "jsnum \<Rightarrow> string"
  parseUnits :: "string \<Rightarrow> nat \<Rightarrow> int option"
  formatUnits :: "int \<Rightarrow> nat \<Rightarrow> string"
  getErc20Meta :: "string \<Rightarrow> chain_name \<Rightarrow> Erc20Meta"
  now :: int

definition getChainFromOffer :: "YamOffer \<Rightarrow> chain_name" where
  "getChainFromOffer yamOffer = Gnosis"

text \<open>
  \<^verbatim>\<open>parseFloat(yamOffer.amount) === 0\<close> holds exactly when the integer is zero.
\<close>

definition getStatusFromOffer :: "YamOffer \<Rightarrow> offer_status" where
  "getStatusFromOffer yamOffer =
     (if str_truthy (removedAt yamOffer) then Cancelled
      else if YamOffer.amount yamOffer = 0 then Sold
      else Active)"

text \<open>\<^verbatim>\<open>Number(ethers.utils.formatUnits(v, d))\<close>\<close>

definition formatUnitsNum :: "nat \<Rightarrow> nat \<Rightarrow> jsnum" where
  "formatUnitsNum v d = Num (of_nat v / 10 ^ d)"

text \<open>\<^verbatim>\<open>d ?? 18\<close>\<close>

definition or18 :: "nat option \<Rightarrow> nat" where
  "or18 d = (case d of None \<Rightarrow> 18 | Some v \<Rightarrow> v)"

definition priceNum :: "YamOffer \<Rightarrow> jsnum" where
  "priceNum yamOffer = formatUnitsNum (YamOffer.price yamOffer) (or18 (buyerTokenDecimals yamOffer))"

definition amountNum :: "YamOffer \<Rightarrow> jsnum" where
  "amountNum yamOffer = formatUnitsNum (YamOffer.amount yamOffer) (or18 (offerTokenDecimals yamOffer))"

text \<open>\<^verbatim>\<open>const reversePriceNum = 1 / priceNum\<close>\<close>

definition reversePriceNum :: "YamOffer \<Rightarrow> jsnum" where
  "reversePriceNum yamOffer = js_div (Num 1) (priceNum yamOffer)"

text \<open>
  The details of the sold token: no lookup for a known stable token, else the lookup in
  the map of the token cache.
\<close>

definition offerTokenDetails :: "(string \<rightharpoonup> CachedToken) \<Rightarrow> YamOffer \<Rightarrow> CachedToken option" where
  "offerTokenDetails reg yamOffer =
     (if isStableToken (getChainFromOffer yamOffer) (offerTokenAddress yamOffer) then None
      else getTokenDetails reg (offerTokenAddress yamOffer))"

text \<open>\<^verbatim>\<open>tokenDetails?.tokenPrice || 1\<close>\<close>

definition official_price :: "CachedToken option \<Rightarrow> jsnum" where
  "official_price td =
     (case td of
        None \<Rightarrow> Num 1
      | Some t \<Rightarrow>
          (case CachedToken.tokenPrice t of
             None \<Rightarrow> Num 1
           | Some p \<Rightarrow> if js_truthy p then p else Num 1))"

text \<open>\<^verbatim>\<open>priceNum - (officialPriceUsd ?? 0)\<close>, where the price is never nullish.\<close>

definition price_diff :: "YamOffer \<Rightarrow> CachedToken option \<Rightarrow> jsnum" where
  "price_diff yamOffer td = js_sub (priceNum yamOffer) (official_price td)"

definition price_diff_pct :: "YamOffer \<Rightarrow> CachedToken option \<Rightarrow> jsnum option" where
  "price_diff_pct yamOffer td =
     (if js_gt (official_price td) (Num 0)
      then Some (js_mul (js_div (price_diff yamOffer td) (official_price td)) (Num 100))
      else None)"

text \<open>
  \<^verbatim>\<open>typeof tokenDetails?.netRentYear === 'number'\<close> gives the rent when it is a number;
  \<open>NaN\<close> is one.
\<close>

definition rent_of :: "CachedToken option \<Rightarrow> jsnum option" where
  "rent_of td = (case td of None \<Rightarrow> None | Some t \<Rightarrow> CachedToken.netRentYear t)"

definition supply_of :: "CachedToken option \<Rightarrow> jsnum" where
  "supply_of td = (case td of None \<Rightarrow> NaN | Some t \<Rightarrow> to_number (CachedToken.totalTokens t))"

definition official_yield_pct :: "CachedToken option \<Rightarrow> jsnum option" where
  "official_yield_pct td =
     (case rent_of td of
        None \<Rightarrow> None
      | Some rent \<Rightarrow>
          if js_gt (official_price td) (Num 0)
          then Some (js_mul (js_div (js_div rent (supply_of td)) (official_price td)) (Num 100))
          else None)"

definition offer_yield_pct :: "YamOffer \<Rightarrow> CachedToken option \<Rightarrow> jsnum option" where
  "offer_yield_pct yamOffer td =
     (case rent_of td of
        None \<Rightarrow> None
      | Some rent \<Rightarrow>
          if js_gt (priceNum yamOffer) (Num 0)
          then Some (js_mul (js_div (js_div rent (supply_of td)) (priceNum yamOffer)) (Num 100))
          else None)"

text \<open>\<^verbatim>\<open>offerYieldPct !== undefined ? offerYieldPct - (officialYieldPct ?? 0) : undefined\<close>\<close>

definition offer_yield_diff :: "YamOffer \<Rightarrow> CachedToken option \<Rightarrow> jsnum option" where
  "offer_yield_diff yamOffer td =
     (case offer_yield_pct yamOffer td of
        None \<Rightarrow> None
      | Some oy \<Rightarrow>
          Some (js_sub oy (case official_yield_pct td of None \<Rightarrow> Num 0 | Some v \<Rightarrow> v)))"

definition offer_yield_diff_pct :: "YamOffer \<Rightarrow> CachedToken option \<Rightarrow> jsnum option" where
  "offer_yield_diff_pct yamOffer td =
     (case official_yield_pct td of
        None \<Rightarrow> None
      | Some official \<Rightarrow>
          (case offer_yield_diff yamOffer td of
             None \<Rightarrow> None
           | Some diff \<Rightarrow> Some (js_mul (js_div diff official) (Num 100))))"

text \<open>
  The meta data of the paying token: the table of stable tokens first, else the ERC-20
  reads, else nothing.
\<close>

definition exchangeMeta :: "host \<Rightarrow> YamOffer \<Rightarrow> Erc20Meta" where
  "exchangeMeta h yamOffer =
     (case getStableMeta (getChainFromOffer yamOffer) (buyerTokenAddress yamOffer) of
        Some m \<Rightarrow> \<lparr>Erc20Meta.name = StableMeta.name m, Erc20Meta.symbol = Some (StableMeta.symbol m)\<rparr>
      | None \<Rightarrow>
          if buyerTokenAddress yamOffer \<noteq> []
          then getErc20Meta h (buyerTokenAddress yamOffer) (getChainFromOffer yamOffer)
          else \<lparr>Erc20Meta.name = None, Erc20Meta.symbol = None\<rparr>)"

text \<open>The displayed name of the sold token.\<close>

definition offer_symbol :: "host \<Rightarrow> YamOffer \<Rightarrow> CachedToken option \<Rightarrow> string option" where
  "offer_symbol h yamOffer td =
     (let fromDetails =
            (case td of
               None \<Rightarrow> None
             | Some t \<Rightarrow> str_or (CachedToken.shortName t) (CachedToken.fullName t))
      in if str_truthy fromDetails then fromDetails
         else
           (case getStableMeta (getChainFromOffer yamOffer) (offerTokenAddress yamOffer) of
              Some stableMeta \<Rightarrow>
                str_or (StableMeta.name stableMeta) (Some (StableMeta.symbol stableMeta))
            | None \<Rightarrow>
                (let erc20Meta = getErc20Meta h (offerTokenAddress yamOffer) (getChainFromOffer yamOffer)
                 in str_or (Erc20Meta.name erc20Meta)
                      (str_or (Erc20Meta.symbol erc20Meta) (Some ''Unknown property'')))))"

text \<open>
  The creation date. An offer read from the chain has \<^verbatim>\<open>createdAt = '0'\<close>, for which the
  page takes the current instant. For any other value \<^verbatim>\<open>toISOString\<close> throws a
  \<^verbatim>\<open>RangeError\<close> when the date is invalid: \<^verbatim>\<open>parseInt\<close> gave \<open>NaN\<close>, or the instant is
  further than 8.64e15 milliseconds from the epoch.
\<close>

datatype js_error = RangeError

definition created_instant :: "host \<Rightarrow> YamOffer \<Rightarrow> js_error + int" where
  "created_instant h yamOffer =
     (if YamOffer.createdAt yamOffer \<noteq> [] \<and> YamOffer.createdAt yamOffer \<noteq> ''0''
      then
        (case parseInt h (YamOffer.createdAt yamOffer) of
           None \<Rightarrow> Inl RangeError
         | Some secs \<Rightarrow>
             if \<bar>secs * 1000\<bar> \<le> 8640000000000000 then Inr (secs * 1000) else Inl RangeError)
      else Inr (now h))"

text \<open>
  \<^verbatim>\<open>combineOfferData\<close>, for the map \<open>reg\<close> that the token cache holds when the details are
  looked up.
\<close>

definition combineOfferData ::
  "host \<Rightarrow> (string \<rightharpoonup> CachedToken) \<Rightarrow> YamOffer \<Rightarrow> js_error + Offer" where
  "combineOfferData h reg yamOffer =
     (let td = offerTokenDetails reg yamOffer in
      case created_instant h yamOffer of
        Inl e \<Rightarrow> Inl e
      | Inr created \<Rightarrow>
          Inr \<lparr> id' = offerId yamOffer,
                Offer.price = toFixed (digits h) (priceNum yamOffer) 2,
                reversePrice = toFixed (digits h) (reversePriceNum yamOffer) 2,
                Offer.amount = toFixed (digits h) (amountNum yamOffer) 6,
                Offer.seller = YamOffer.buyerAddress yamOffer,
                Offer.status = getStatusFromOffer yamOffer,
                Offer.createdAt = created,
                chain = getChainFromOffer yamOffer,
                tokenDetails = td,
                offerAddress = offerTokenAddress yamOffer,
                offerDecimals = Some (or18 (offerTokenDecimals yamOffer)),
                offerSymbol = offer_symbol h yamOffer td,
                Offer.buyerAddress = buyerTokenAddress yamOffer,
                buyerDecimals = Some (or18 (buyerTokenDecimals yamOffer)),
                buyerSymbol = Erc20Meta.symbol (exchangeMeta h yamOffer),
                officialPriceUsd = Some (official_price td),
                priceDiff = Some (price_diff yamOffer td),
                priceDiffPct = price_diff_pct yamOffer td,
                offerYieldPct = offer_yield_pct yamOffer td,
                officialYieldPct = official_yield_pct td,
                offerYieldDiff = offer_yield_diff yamOffer td,
                offerYieldDiffPct = offer_yield_diff_pct yamOffer td \<rparr>)"

section \<open>The purchase dialog\<close>

text \<open>
  The state of the page (\<^verbatim>\<open>useState\<close>) that the dialog reads and writes, with the
  wallet's connection and signer.
\<close>

datatype tx_status = TxIdle | TxPending | TxSuccess | TxError

record page =
  offer :: "Offer option"
  buyAmount :: string
  showBuyModal :: bool
  txStatus :: tx_status
  allowance :: int
  isAllowanceLoading :: bool
  isApproving :: bool
  txError :: "string option"
  balance :: int
  isConnected :: bool
  signer :: bool

text \<open>\<^verbatim>\<open>x <= y\<close>: false as soon as one side is \<open>NaN\<close>.\<close>

definition js_le :: "jsnum \<Rightarrow> jsnum \<Rightarrow> bool" where
  "js_le x y = (x \<noteq> NaN \<and> y \<noteq> NaN \<and> \<not> js_gt x y)"

text \<open>\<^verbatim>\<open>d || 18\<close>: a missing number and \<open>0\<close> are falsy.\<close>

definition or18_falsy :: "nat option \<Rightarrow> nat" where
  "or18_falsy d = (case d of None \<Rightarrow> 18 | Some v \<Rightarrow> if v = 0 then 18 else v)"

text \<open>
  The amount of the paying token that a purchase needs, in its integer unit: the product
  of the two parsed numbers, rounded by \<^verbatim>\<open>toFixed\<close>, parsed back, rendered and handed to
  \<^verbatim>\<open>parseUnits\<close>. \<open>None\<close> is an exception: \<^verbatim>\<open>toFixed\<close> refuses more than 100 digits,
  and \<^verbatim>\<open>parseUnits\<close> may throw.
\<close>

definition totalCost :: "host \<Rightarrow> string \<Rightarrow> Offer \<Rightarrow> jsnum" where
  "totalCost h amt off = js_mul (parseFloat h amt) (parseFloat h (Offer.price off))"

definition amountNeeded :: "host \<Rightarrow> string \<Rightarrow> Offer \<Rightarrow> int option" where
  "amountNeeded h amt off =
     (let decimals = or18_falsy (buyerDecimals off) in
      if 100 < decimals then None
      else
        (let totalCostRounded = parseFloat h (toFixed (digits h) (totalCost h amt off) decimals)
         in parseUnits h (numToString h totalCostRounded) decimals))"

text \<open>
  What the dialog computes each time it renders. The text of the error message is left
  out: only its presence is used.
\<close>

definition amount_positive :: "host \<Rightarrow> page \<Rightarrow> bool" where
  "amount_positive h st = (buyAmount st \<noteq> [] \<and> js_gt (parseFloat h (buyAmount st)) (Num 0))"

definition calculationError :: "host \<Rightarrow> page \<Rightarrow> bool" where
  "calculationError h st =
     (case offer st of
        None \<Rightarrow> False
      | Some off \<Rightarrow>
          if amount_positive h st then
            (if totalCost h (buyAmount st) off = NaN then True
             else amountNeeded h (buyAmount st) off = None)
          else False)"

definition needsApproval :: "host \<Rightarrow> page \<Rightarrow> bool" where
  "needsApproval h st =
     (case offer st of
        None \<Rightarrow> False
      | Some off \<Rightarrow>
          if amount_positive h st then
            (if totalCost h (buyAmount st) off = NaN then False
             else
               (case amountNeeded h (buyAmount st) off of
                  None \<Rightarrow> False
                | Some needed \<Rightarrow> allowance st < needed))
          else False)"

text \<open>
  The controls of the dialog: the amount field (with the text typed), the \<^verbatim>\<open>Max\<close>
  button beside it, the cross that closes the dialog, \<^verbatim>\<open>Cancel\<close>, and the button that
  approves or the one that confirms.
\<close>

datatype control =
  AmountInput string | MaxButton | CloseButton | CancelButton | ApproveButton | ConfirmButton

definition rendered :: "host \<Rightarrow> page \<Rightarrow> control \<Rightarrow> bool" where
  "rendered h st c =
     (showBuyModal st \<and> offer st \<noteq> None \<and>
      (case c of
         ApproveButton \<Rightarrow> needsApproval h st
       | ConfirmButton \<Rightarrow> \<not> needsApproval h st
       | _ \<Rightarrow> True))"

text \<open>The \<^verbatim>\<open>disabled\<close> attribute of each control; two of them have none.\<close>

definition disabled :: "host \<Rightarrow> page \<Rightarrow> control \<Rightarrow> bool" where
  "disabled h st c =
     (case c of
        AmountInput v \<Rightarrow> txStatus st = TxPending \<or> isApproving st
      | MaxButton \<Rightarrow> False
      | CloseButton \<Rightarrow> False
      | CancelButton \<Rightarrow> isApproving st \<or> txStatus st = TxPending
      | ApproveButton \<Rightarrow>
          isApproving st \<or> txStatus st = TxPending \<or> isAllowanceLoading st
          \<or> buyAmount st = [] \<or> js_le (parseFloat h (buyAmount st)) (Num 0)
          \<or> calculationError h st
      | ConfirmButton \<Rightarrow>
          buyAmount st = [] \<or> js_le (parseFloat h (buyAmount st)) (Num 0)
          \<or> isApproving st \<or> txStatus st = TxPending
          \<or> needsApproval h st \<or> calculationError h st)"

text \<open>
  \<^verbatim>\<open>handleSetMaxAmount\<close> on the page: the maximum is formatted and stored; an early
  return or an exception stores nothing.
\<close>

definition setMaxAmount :: "host \<Rightarrow> page \<Rightarrow> page" where
  "setMaxAmount h st =
     (case handleSetMaxAmount (parseUnits h) (offer st) (balance st) of
        Inr (Some maxAmountBN) \<Rightarrow> st\<lparr>buyAmount := formatUnits h maxAmountBN PRECISION\<rparr>
      | _ \<Rightarrow> st)"

text \<open>
  \<^verbatim>\<open>handleApprove\<close> and \<^verbatim>\<open>handleBuy\<close> up to their first \<^verbatim>\<open>await\<close>, where the
  transaction has been handed to the wallet. An exception before that point ends in the
  \<^verbatim>\<open>catch\<close>. The tail of the error message, which comes from the exception, is left
  out.
\<close>

definition handleApprove :: "host \<Rightarrow> page \<Rightarrow> page" where
  "handleApprove h st =
     (case offer st of
        None \<Rightarrow> st
      | Some off \<Rightarrow>
          if signer st \<and> Offer.buyerAddress off \<noteq> [] \<and> buyAmount st \<noteq> [] then
            (case amountNeeded h (buyAmount st) off of
               Some amountToApprove \<Rightarrow> st\<lparr>isApproving := True, txStatus := TxPending\<rparr>
             | None \<Rightarrow>
                 st\<lparr>txError := Some ''Error approving token'', txStatus := TxError,
                     isApproving := False\<rparr>)
          else st)"

definition handleBuy :: "host \<Rightarrow> page \<Rightarrow> page" where
  "handleBuy h st =
     (case offer st of
        None \<Rightarrow> st
      | Some off \<Rightarrow>
          if isConnected st \<and> signer st \<and> buyAmount st \<noteq> []
             \<and> \<not> js_le (parseFloat h (buyAmount st)) (Num 0)
             \<and> \<not> js_gt (parseFloat h (buyAmount st)) (parseFloat h (Offer.amount off))
          then
            (case (parseUnits h (Offer.price off) (or18_falsy (buyerDecimals off)),
                   parseUnits h (buyAmount st) (or18_falsy (offerDecimals off))) of
               (Some p, Some a) \<Rightarrow> st\<lparr>txStatus := TxPending\<rparr>
             | _ \<Rightarrow> st\<lparr>txError := Some ''Error buying token'', txStatus := TxError\<rparr>)
          else st)"

text \<open>
  What a user action on a control does: nothing when the control is not rendered or is
  disabled, else the handler that the control names.
\<close>

definition act :: "host \<Rightarrow> page \<Rightarrow> control \<Rightarrow> page" where
  "act h st c =
     (if rendered h st c \<and> \<not> disabled h st c then
        (case c of
           AmountInput v \<Rightarrow> st\<lparr>buyAmount := v\<rparr>
         | MaxButton \<Rightarrow> setMaxAmount h st
         | CloseButton \<Rightarrow> st\<lparr>showBuyModal := False\<rparr>
         | CancelButton \<Rightarrow> st\<lparr>showBuyModal := False\<rparr>
         | ApproveButton \<Rightarrow> handleApprove h st
         | ConfirmButton \<Rightarrow> handleBuy h st)
      else st)"

section \<open>Sample inputs\<close>

text \<open>
  Offer 7 of the chain: 26.031567 tokens of an 18-decimal property token, at 2.00 of a
  6-decimal stable token each. The host functions are tables that cover the values the
  samples meet.
\<close>

definition sample_digits :: "rat \<Rightarrow> nat \<Rightarrow> string" where
  "sample_digits q d =
     (if q = 2 \<and> d = 2 then ''2.00''
      else if q = 1 / 2 \<and> d = 2 then ''0.50''
      else if q = 0 \<and> d = 2 then ''0.00''
      else if q = 50 \<and> d = 2 then ''50.00''
      else if q = 1 / 50 \<and> d = 2 then ''0.02''
      else if q = 26031567 / 1000000 \<and> d = 6 then ''26.031567''
      else ''?'')"

definition sample_parseUnits :: "string \<Rightarrow> nat \<Rightarrow> int option" where
  "sample_parseUnits s d =
     (if s = ''2.00'' \<and> d = 6 then Some 2000000
      else if s = ''26.031567'' \<and> d = 6 then Some 26031567
      else None)"

definition sample_formatUnits :: "int \<Rightarrow> nat \<Rightarrow> string" where
  "sample_formatUnits v d = (if v = 500000 \<and> d = 6 then ''0.5'' else ''?'')"

definition sample_parseFloat :: "string \<Rightarrow> jsnum" where
  "sample_parseFloat s =
     (if s = ''1'' then Num 1
      else if s = ''2.00'' then Num 2
      else if s = ''26.031567'' then Num (26031567 / 1000000)
      else NaN)"

definition sample_parseInt :: "string \<Rightarrow> int option" where
  "sample_parseInt s = (if s = ''1700000000'' then Some 1700000000 else None)"

definition sample_host :: host where
  "sample_host =
     \<lparr> digits = sample_digits, parseInt = sample_parseInt, parseFloat = sample_parseFloat,
       numToString = (\<lambda>x. ''?''), parseUnits = sample_parseUnits,
       formatUnits = sample_formatUnits,
       getErc20Meta = (\<lambda>a c. \<lparr>Erc20Meta.name = None, Erc20Meta.symbol = None\<rparr>),
       now = 1700000000000 \<rparr>"

definition sample_number_of :: "string \<Rightarrow> jsnum" where
  "sample_number_of s = (if s = ''7'' then Num 7 else NaN)"

text \<open>A node that knows ten offers and on which every \<^verbatim>\<open>decimals()\<close> call fails.\<close>

definition sample_node :: rpc where
  "sample_node =
     \<lparr> getOfferCount = Some 10,
       showOffer =
         (\<lambda>n. if n = 7 then
                Some \<lparr> slot0 = Some ''0xAb01'',
                       slot1 = Some ''0xDDAFBB505ad214D7b80b1f830fcCc89B60fb7A83'',
                       slot2 = Some ''0x5e11e4'', slot3 = Some ''0x0'',
                       slot4 = Some 2000000, slot5 = Some 26031567000000000000 \<rparr>
              else None),
       rpc.decimals = (\<lambda>a. None) \<rparr>"

definition sample_yam :: YamOffer where
  "sample_yam =
     \<lparr> offerId = ''7'', buyerTokenAddress = ''0xDDAFBB505ad214D7b80b1f830fcCc89B60fb7A83'',
       offerTokenAddress = ''0xAb01'', YamOffer.buyerAddress = ''0x5e11e4'',
       YamOffer.price = 2000000, YamOffer.amount = 26031567000000000000, type = 0,
       YamOffer.createdAt = ''0'', removedAt = None, offerTokenDecimals = Some 18,
       buyerTokenDecimals = Some 6 \<rparr>"

definition sample_offer :: Offer where
  "sample_offer =
     \<lparr> id' = ''7'', price = ''2.00'', reversePrice = ''0.50'', amount = ''26.031567'',
       seller = ''0x5e11e4'', status = Active, createdAt = 1700000000000, chain = Gnosis,
       tokenDetails = None, offerAddress = ''0xAb01'', offerDecimals = Some 18,
       offerSymbol = Some ''Unknown property'',
       buyerAddress = ''0xDDAFBB505ad214D7b80b1f830fcCc89B60fb7A83'',
       buyerDecimals = Some 6, buyerSymbol = Some ''USDC'', officialPriceUsd = Some (Num 1),
       priceDiff = Some (Num 1), priceDiffPct = Some (Num 100), offerYieldPct = None,
       officialYieldPct = None, offerYieldDiff = None, offerYieldDiffPct = None \<rparr>"

text \<open>A property of the registry that yields no rent yet.\<close>

definition zero_rent_token :: CachedToken where
  "zero_rent_token =
     \<lparr> CachedToken.tokenAddress = ''0xAb01'', CachedToken.shortName = Some ''Prop'',
       CachedToken.fullName = None, CachedToken.tokenPrice = Some (Num 50),
       CachedToken.netRentYear = Some (Num 0), CachedToken.imageLink = None,
       CachedToken.marketplaceLink = None, CachedToken.totalTokens = Some (Num 1000),
       CachedToken.rentStartDate = None \<rparr>"

text \<open>
  A configured cache service, a cache file written at instant 1000 that holds one token,
  and a request that arrives more than a day later.
\<close>

definition sample_env :: process_env where
  "sample_env =
     \<lparr> NEXT_PUBLIC_COMMUNITY_API_URI = Some ''https://registry.example/v1'',
       COMMUNITY_API_URI = None, COMMUNITY_API_KEY = Some ''key'' \<rparr>"

definition stale_disk :: disk where
  "stale_disk =
     \<lparr> cache_file = Some \<lparr>lastUpdated = 1000, tokens = [(''0xab01'', zero_rent_token)]\<rparr>,
       writable = True \<rparr>"

definition empty_disk :: disk where
  "empty_disk = \<lparr> cache_file = None, writable = True \<rparr>"

definition late_clock :: clock where
  "late_clock =
     \<lparr> t_check1 = 90000000, t_check2 = 90000000, t_write = 90000001, t_body = 90000002,
       t_error = 90000003 \<rparr>"

definition get_request :: request where
  "get_request = \<lparr> req_method = ''GET'', refresh = None \<rparr>"

text \<open>The dialog while an approval is pending, with a balance of one stable token.\<close>

definition pending_page :: page where
  "pending_page =
     \<lparr> offer = Some sample_offer, buyAmount = ''1'', showBuyModal = True,
       txStatus = TxPending, allowance = 0, isAllowanceLoading = False, isApproving = True,
       txError = None, balance = 1000000, isConnected = True, signer = True \<rparr>"

text \<open>
  A page whose first initialization failed at instant 2, and three callers that arrive
  more than a day later.
\<close>

definition sample_history :: "event list" where
  "sample_history = [Lookup 1 ''0xAb01'', Completed 2 FetchFailed]"

definition sample_callers :: "(int \<times> string) list" where
  "sample_callers = [(90000000, ''0xAb01''), (90000001, ''0xab01''), (90000002, ''0xFFFF'')]"

text \<open>The registry's entry from which the cache service builds the sample token.\<close>

definition sample_api_token :: ApiToken where
  "sample_api_token =
     \<lparr> ApiToken.tokenAddress = None, address = None, contractAddress = None,
       ethereumContract = None, xDaiContract = None, gnosisContract = Some ''0xAb01'',
       ApiToken.shortName = Some ''Prop'', ApiToken.fullName = None,
       ApiToken.tokenPrice = Some (Num 50), ApiToken.netRentYear = Some (Num 0),
       ApiToken.imageLink = None, ApiToken.marketplaceLink = None,
       ApiToken.totalTokens = Some (Num 1000), ApiToken.rentStartDate = None \<rparr>"

section \<open>Properties of the maximum purchasable amount\<close>

lemma bn_div_pos: "0 < b \<Longrightarrow> bn_div a b = (if 0 \<le> a then a div b else - ((- a) div b))"
  by (cases "a = 0") (auto simp: bn_div_def sgn_if)

lemma bn_div_mono:
  assumes "0 < b" and "a1 \<le> a2"
  shows "bn_div a1 b \<le> bn_div a2 b"
proof -
  have nonneg: "0 \<le> x div b" if "0 \<le> x" for x
    using that assms(1) by (simp add: pos_imp_zdiv_nonneg_iff)
  consider "0 \<le> a1" | "a1 < 0" "0 \<le> a2" | "a2 < 0" by linarith
  then show ?thesis
  proof cases
    case 1
    then show ?thesis using assms by (simp add: bn_div_pos zdiv_mono1)
  next
    case 2
    have "- ((- a1) div b) \<le> 0" using nonneg [of "- a1"] 2 by simp
    also have "0 \<le> a2 div b" using nonneg 2 by simp
    finally show ?thesis using 2 assms by (simp add: bn_div_pos)
  next
    case 3
    have "(- a2) div b \<le> (- a1) div b" using assms by (simp add: zdiv_mono1)
    then show ?thesis using 3 assms by (simp add: bn_div_pos)
  qed
qed

text \<open>
  Claim C2. Whenever the offer's price parses to a positive fixed-point value and its
  remaining amount parses, the handler computes a maximum for every balance: the minimum
  of the truncated quotient of the balance scaled by \<open>10 ^ PRECISION\<close> by the price,
  and of the remaining amount, both at \<open>PRECISION\<close> decimals. The maximum never
  exceeds the remaining amount, and a larger balance never gives a smaller maximum. For a
  balance that is not negative the quotient is the integer division. (A price that
  parses to zero makes the division throw, and the price of an enriched offer is never
  negative.)
\<close>

theorem handleSetMaxAmount_monotone_bounded:
  assumes "pu (Offer.price off) PRECISION = Some p"
    and "0 < p"
    and "pu (Offer.amount off) PRECISION = Some a"
    and "b1 \<le> b2"
  shows "\<exists>m1 m2.
           handleSetMaxAmount pu (Some off) b1 = Inr (Some m1)
         \<and> handleSetMaxAmount pu (Some off) b2 = Inr (Some m2)
         \<and> m1 = min (bn_div (b1 * 10 ^ PRECISION) p) a
         \<and> m2 = min (bn_div (b2 * 10 ^ PRECISION) p) a
         \<and> (0 \<le> b2 \<longrightarrow> bn_div (b2 * 10 ^ PRECISION) p = (b2 * 10 ^ PRECISION) div p)
         \<and> m1 \<le> m2 \<and> m1 \<le> a \<and> m2 \<le> a"
proof -
  have scaled: "b1 * 10 ^ PRECISION \<le> b2 * 10 ^ PRECISION"
    using assms(4) by (simp add: mult_right_mono)
  have quot: "bn_div (b1 * 10 ^ PRECISION) p \<le> bn_div (b2 * 10 ^ PRECISION) p"
    using bn_div_mono [OF assms(2) scaled] .
  have r: "handleSetMaxAmount pu (Some off) b
             = Inr (Some (min (bn_div (b * 10 ^ PRECISION) p) a))" for b
    using assms(1-3) by (simp add: handleSetMaxAmount_def Let_def min_def)
  have fl: "0 \<le> b2 \<longrightarrow> bn_div (b2 * 10 ^ PRECISION) p = (b2 * 10 ^ PRECISION) div p"
    using assms(2) by (simp add: bn_div_pos)
  show ?thesis
    using r [of b1] r [of b2] quot fl by (auto simp: min_def)
qed

text \<open>
  On the sample offer a balance of one stable token buys 0.5 tokens, and a balance of a
  hundred reaches the remaining amount.
\<close>

theorem handleSetMaxAmount_monotone_bounded_witness:
  "handleSetMaxAmount sample_parseUnits (Some sample_offer) 1000000 = Inr (Some 500000)
   \<and> handleSetMaxAmount sample_parseUnits (Some sample_offer) 100000000 = Inr (Some 26031567)
   \<and> (500000::int) \<le> 26031567"
proof -
  have p: "sample_parseUnits (Offer.price sample_offer) PRECISION = Some 2000000"
    by (simp add: sample_parseUnits_def sample_offer_def PRECISION_def)
  have a: "sample_parseUnits (Offer.amount sample_offer) PRECISION = Some 26031567"
    by (simp add: sample_parseUnits_def sample_offer_def PRECISION_def)
  have pos: "(0::int) < 2000000" by simp
  have le: "(1000000::int) \<le> 100000000" by simp
  from handleSetMaxAmount_monotone_bounded
         [of sample_parseUnits sample_offer 2000000 26031567 1000000 100000000, OF p pos a le]
  show ?thesis
    by (auto simp: PRECISION_def bn_div_def)
qed

section \<open>Properties of the cache service\<close>

text \<open>
  Every answer to a \<^verbatim>\<open>GET\<close> has status 200, whatever the registry, the disk and the
  clock do.
\<close>

lemma handler_get_status:
  "req_method req = ''GET'' \<Longrightarrow> status (fst (handler env up clk d req)) = 200"
  by (simp add: handler_def Let_def lastResort_def split: sum.splits option.splits prod.splits)

text \<open>
  With its two settings present, \<^verbatim>\<open>fetchAllTokens\<close> never throws: a registry that
  cannot be reached, that answers an error status or that answers something other than
  an array gives the empty dictionary.
\<close>

lemma fetchAllTokens_configured:
  assumes "str_truthy (str_or (NEXT_PUBLIC_COMMUNITY_API_URI env) (COMMUNITY_API_URI env))"
    and "str_truthy (COMMUNITY_API_KEY env)"
  shows "fetchAllTokens env up = Inr (cachedTokens (allTokens up) [])"
  using assms by (simp add: fetchAllTokens_def)

lemma allTokens_failed:
  "allTokens FetchRejected = []" "allTokens (Response st JsonInvalid) = []"
  "allTokens (Response st JsonOther) = []" "allTokens (Response 500 b) = []"
  "allTokens (Response 404 b) = []"
  by (simp_all add: allTokens_def response_ok_def split: json_body.splits)

text \<open>
  The stale cache is served, and nothing is written, when the refresh throws: a setting
  is missing, or the disk refuses the write.
\<close>

lemma handler_refresh_throws:
  assumes "req_method req = ''GET''" and "refreshCache env up clk d = Inl e"
    and "readCache d = Some c"
  shows "handler env up clk d req = (\<lparr>status = 200, body = CacheBody (Some c)\<rparr>, d)"
  using assms by (simp add: handler_def Let_def)

lemmas handler_defs =
  handler_def Let_def refreshCache_def fetchAllTokens_def allTokens_def writeCache_def
  readCache_def isCacheValid_def CACHE_MAX_AGE_MS_def lastResort_def str_truthy_def str_or_def
  sample_env_def stale_disk_def empty_disk_def late_clock_def get_request_def

lemmas client_defs =
  loaded_def response_ok_def payload_tokens_def payload_lastUpdated_def init_client_def
  getTokenDetails_def toLowerCase_def lower_char_def zero_rent_token_def

text \<open>
  Claim C3, on the code. A cache file exists and is older than a day; the request to the
  registry is rejected. The route writes an empty dictionary with a new timestamp over
  the file and answers it. The page that had loaded the earlier file and loads this
  answer no longer finds the token it knew.
\<close>

theorem handler_failed_refresh_overwrites_cache:
  "handler sample_env FetchRejected late_clock stale_disk get_request
     = (\<lparr>status = 200, body = CacheBody (Some \<lparr>lastUpdated = 90000002, tokens = []\<rparr>)\<rparr>,
        \<lparr>cache_file = Some \<lparr>lastUpdated = 90000001, tokens = []\<rparr>, writable = True\<rparr>)
   \<and> getTokenDetails
         (cache (loaded 5 (Replied 200 (CacheBody (cache_file stale_disk))) init_client))
         ''0xAB01'' = Some zero_rent_token
   \<and> getTokenDetails
         (cache (loaded 90000005
                   (Replied 200 (body (fst (handler sample_env FetchRejected late_clock
                                              stale_disk get_request))))
                   (loaded 5 (Replied 200 (CacheBody (cache_file stale_disk))) init_client)))
         ''0xAB01'' = None"
proof (intro conjI)
  show h: "handler sample_env FetchRejected late_clock stale_disk get_request
     = (\<lparr>status = 200, body = CacheBody (Some \<lparr>lastUpdated = 90000002, tokens = []\<rparr>)\<rparr>,
        \<lparr>cache_file = Some \<lparr>lastUpdated = 90000001, tokens = []\<rparr>, writable = True\<rparr>)"
    by (simp add: handler_defs)
  show "getTokenDetails
         (cache (loaded 5 (Replied 200 (CacheBody (cache_file stale_disk))) init_client))
         ''0xAB01'' = Some zero_rent_token"
    by (simp add: client_defs stale_disk_def)
  show "getTokenDetails
         (cache (loaded 90000005
                   (Replied 200 (body (fst (handler sample_env FetchRejected late_clock
                                              stale_disk get_request))))
                   (loaded 5 (Replied 200 (CacheBody (cache_file stale_disk))) init_client)))
         ''0xAB01'' = None"
    by (simp add: h) (simp add: client_defs)
qed

text \<open>
  Claim C9, on the code. No cache file exists and the request to the registry is
  rejected. The status is 200, but the body is a cache with an empty dictionary and no
  error marker, and that empty cache is written to the disk.
\<close>

theorem handler_unreachable_registry_no_error_marker:
  "handler sample_env FetchRejected late_clock empty_disk get_request
     = (\<lparr>status = 200, body = CacheBody (Some \<lparr>lastUpdated = 90000002, tokens = []\<rparr>)\<rparr>,
        \<lparr>cache_file = Some \<lparr>lastUpdated = 90000001, tokens = []\<rparr>, writable = True\<rparr>)"
  by (simp add: handler_defs)

text \<open>
  The empty cache with its error marker is the answer when the refresh throws and no
  cache file can be read.
\<close>

lemma handler_error_marker:
  assumes "req_method req = ''GET''" and "refreshCache env up clk d = Inl e"
    and "readCache d = None"
  shows "handler env up clk d req
           = (\<lparr>status = 200,
               body = EmptyWithError (t_error clk) ''Cache temporarily unavailable''\<rparr>, d)"
  using assms by (simp add: handler_def Let_def lastResort_def isCacheValid_def)

section \<open>Properties of the token cache of the page\<close>

text \<open>The invariant holds in every state that a history reaches.\<close>

lemma inv_init: "session_inv init_session"
  by (simp add: session_inv_def single_flight_inv_def init_session_def init_client_def)

lemma inv_lookup_call: "session_inv s \<Longrightarrow> session_inv (lookup_call tm a s)"
  by (auto simp: session_inv_def single_flight_inv_def lookup_call_def initializeCache_def
        split: option.splits)

lemma settle_completes:
  "inflight st = 1 \<Longrightarrow>
     inflight (settle tm r st) = 0 \<and> initializationPromise (settle tm r st) = None"
  by (simp add: settle_def loaded_def split: backend.splits option.splits)

lemma inv_completion: "session_inv s \<Longrightarrow> session_inv (completion tm r s)"
proof (cases "initializationPromise (api s)")
  case None
  assume "session_inv s"
  with None show ?thesis by (simp add: completion_def)
next
  case (Some p)
  assume inv: "session_inv s"
  then have "inflight (api s) = 1"
    using Some by (simp add: session_inv_def single_flight_inv_def)
  from settle_completes [OF this, of tm r] inv Some show ?thesis
    by (auto simp: session_inv_def single_flight_inv_def completion_def Let_def)
qed

lemma inv_step: "session_inv s \<Longrightarrow> session_inv (step e s)"
  by (cases e) (simp_all add: inv_lookup_call inv_completion)

lemma inv_run: "session_inv s \<Longrightarrow> session_inv (run es s)"
  by (induction es arbitrary: s) (simp_all add: inv_step)

lemma inv_reachable: "session_inv (run es init_session)"
  by (rule inv_run [OF inv_init])

text \<open>While an initialization runs, a call leaves the cache of the page as it is.\<close>

lemma lookup_call_running:
  "initializationPromise (api s) = Some p \<Longrightarrow> api (lookup_call tm a s) = api s"
  by (simp add: lookup_call_def initializeCache_def)

lemma burst_running:
  "initializationPromise (api s) = Some p \<Longrightarrow>
     api (run (map (case_prod Lookup) ds) s) = api s"
proof (induction ds arbitrary: s)
  case Nil
  show ?case by simp
next
  case (Cons d ds)
  obtain tm a where d: "d = (tm, a)" by (cases d)
  have same: "api (lookup_call tm a s) = api s"
    using Cons.prems by (rule lookup_call_running)
  have "api (run (map (case_prod Lookup) ds) (lookup_call tm a s)) = api (lookup_call tm a s)"
    by (rule Cons.IH) (simp add: same Cons.prems)
  then show ?case by (simp add: d same)
qed

text \<open>Callers that find the cache stale join the running initialization.\<close>

lemma burst_joined:
  assumes "initializationPromise (api s) = Some p"
    and "\<forall>c \<in> set cs. \<not> isFresh (api s) (fst c)"
  shows "run (map (case_prod Lookup) cs) s = s\<lparr>waiting := waiting s @ map (\<lambda>c. (p, snd c)) cs\<rparr>"
  using assms
proof (induction cs arbitrary: s)
  case Nil
  show ?case by simp
next
  case (Cons c cs)
  obtain tm a where c: "c = (tm, a)" by (cases c)
  have first: "lookup_call tm a s = s\<lparr>waiting := waiting s @ [(p, a)]\<rparr>"
    using Cons.prems c by (simp add: lookup_call_def initializeCache_def)
  have "run (map (case_prod Lookup) cs) (s\<lparr>waiting := waiting s @ [(p, a)]\<rparr>)
          = (s\<lparr>waiting := waiting s @ [(p, a)]\<rparr>)
              \<lparr>waiting := waiting (s\<lparr>waiting := waiting s @ [(p, a)]\<rparr>) @ map (\<lambda>c. (p, snd c)) cs\<rparr>"
    by (rule Cons.IH) (use Cons.prems in simp_all)
  then show ?case by (simp add: c first)
qed

text \<open>The first of them starts an initialization when none runs.\<close>

lemma burst_started:
  assumes "initializationPromise (api s) = None"
    and "\<forall>c \<in> set (c0 # cs). \<not> isFresh (api s) (fst c)"
  shows "run (map (case_prod Lookup) (c0 # cs)) s
           = s\<lparr> api := (api s)\<lparr>initializationPromise := Some (fetches (api s)),
                                fetches := fetches (api s) + 1,
                                inflight := inflight (api s) + 1\<rparr>,
                 waiting := waiting s @ map (\<lambda>c. (fetches (api s), snd c)) (c0 # cs) \<rparr>"
proof -
  obtain tm a where c0: "c0 = (tm, a)" by (cases c0)
  let ?st1 = "(api s)\<lparr>initializationPromise := Some (fetches (api s)),
                      fetches := fetches (api s) + 1, inflight := inflight (api s) + 1\<rparr>"
  let ?s1 = "s\<lparr>api := ?st1, waiting := waiting s @ [(fetches (api s), a)]\<rparr>"
  have first: "lookup_call tm a s = ?s1"
    using assms c0 by (simp add: lookup_call_def initializeCache_def)
  have rest: "run (map (case_prod Lookup) cs) ?s1
                = ?s1\<lparr>waiting := waiting ?s1 @ map (\<lambda>c. (fetches (api s), snd c)) cs\<rparr>"
    by (rule burst_joined) (use assms(2) in \<open>simp_all add: isFresh_def\<close>)
  show ?thesis using rest by (simp add: c0 first)
qed

text \<open>Calls with no completion in between issue at most one request, whenever made.\<close>

lemma burst_at_most_one:
  "fetches (api (run (map (case_prod Lookup) ds) s)) \<le> fetches (api s) + 1"
proof (induction ds arbitrary: s)
  case Nil
  show ?case by simp
next
  case (Cons d ds)
  obtain tm a where d: "d = (tm, a)" by (cases d)
  show ?case
  proof (cases "initializationPromise (api s)")
    case (Some p)
    then show ?thesis using burst_running [OF Some, of "d # ds"] by simp
  next
    case None
    show ?thesis
    proof (cases "isFresh (api s) tm")
      case True
      then have "api (lookup_call tm a s) = api s"
        by (simp add: lookup_call_def initializeCache_def)
      then show ?thesis using Cons.IH [of "lookup_call tm a s"] by (simp add: d)
    next
      case False
      let ?st1 = "(api s)\<lparr>initializationPromise := Some (fetches (api s)),
                          fetches := fetches (api s) + 1, inflight := inflight (api s) + 1\<rparr>"
      have a1: "api (lookup_call tm a s) = ?st1"
        using False None by (simp add: lookup_call_def initializeCache_def)
      have "api (run (map (case_prod Lookup) ds) (lookup_call tm a s)) = api (lookup_call tm a s)"
        by (rule burst_running [of _ "fetches (api s)"]) (simp add: a1)
      then show ?thesis by (simp add: d a1)
    qed
  qed
qed

lemma same_promise: "\<forall>w \<in> set ws. fst w = p \<Longrightarrow> map (\<lambda>w. (p, snd w)) ws = ws"
  by (induction ws) auto

text \<open>The map that the completion of an outstanding request leaves.\<close>

lemma cache_settle:
  "inflight st \<noteq> 0 \<Longrightarrow>
     cache (settle tm r st)
       = (case r of
            FetchFailed \<Rightarrow> cache st
          | Replied code b \<Rightarrow>
              if response_ok code then
                (case payload_tokens b of
                   Some toks \<Rightarrow> load_tokens (map snd toks) Map.empty
                 | None \<Rightarrow> cache st)
              else cache st)"
  by (simp add: settle_def loaded_def split: backend.splits option.splits)

text \<open>
  The cache service does not coalesce: every \<^verbatim>\<open>GET\<close> that finds the cache file missing
  or expired, with the two settings present and a disk that takes the write, answers
  the tokens of its own request to the registry.
\<close>

lemma handler_refreshes_each_time:
  assumes "req_method req = ''GET''"
    and "\<not> isCacheValid (t_check1 clk) (readCache d)"
    and "\<not> isCacheValid (t_check2 clk) (readCache d)"
    and "str_truthy (str_or (NEXT_PUBLIC_COMMUNITY_API_URI env) (COMMUNITY_API_URI env))"
    and "str_truthy (COMMUNITY_API_KEY env)"
    and "writable d"
  shows "body (fst (handler env up clk d req))
           = CacheBody (Some \<lparr>lastUpdated = t_body clk, tokens = cachedTokens (allTokens up) []\<rparr>)"
  using assms
  by (simp add: handler_def Let_def refreshCache_def fetchAllTokens_def writeCache_def)

text \<open>
  Claim C1 as stated fails. Two pages initialize their caches while the cache file of
  the service is older than a day; both requests read the file before either refresh
  has written it. Each request is answered from a registry request of its own, so the
  registry is fetched twice by the one service, and as the registry's two answers
  differ, the caller of one page finds the token and the caller of the other does not.
\<close>

theorem handler_no_coalescing_counterexample:
  "handler sample_env (Response 200 (JsonArray [sample_api_token])) late_clock stale_disk get_request
     = (\<lparr>status = 200,
         body = CacheBody (Some \<lparr>lastUpdated = 90000002, tokens = [(''0xab01'', zero_rent_token)]\<rparr>)\<rparr>,
        \<lparr>cache_file = Some \<lparr>lastUpdated = 90000001, tokens = [(''0xab01'', zero_rent_token)]\<rparr>,
          writable = True\<rparr>)
   \<and> handler sample_env (Response 200 (JsonArray [])) late_clock stale_disk get_request
     = (\<lparr>status = 200, body = CacheBody (Some \<lparr>lastUpdated = 90000002, tokens = []\<rparr>)\<rparr>,
        \<lparr>cache_file = Some \<lparr>lastUpdated = 90000001, tokens = []\<rparr>, writable = True\<rparr>)
   \<and> answers
        (run [Lookup 90000000 ''0xAb01'',
              Completed 90000003
                (Replied 200
                   (body (fst (handler sample_env (Response 200 (JsonArray [sample_api_token]))
                                 late_clock stale_disk get_request))))]
           init_session)
       = [(''0xAb01'', Some zero_rent_token)]
   \<and> answers
        (run [Lookup 90000000 ''0xAb01'',
              Completed 90000003
                (Replied 200
                   (body (fst (handler sample_env (Response 200 (JsonArray []))
                                 late_clock stale_disk get_request))))]
           init_session)
       = [(''0xAb01'', None)]"
proof -
  have h1: "handler sample_env (Response 200 (JsonArray [sample_api_token])) late_clock stale_disk
              get_request
     = (\<lparr>status = 200,
         body = CacheBody (Some \<lparr>lastUpdated = 90000002, tokens = [(''0xab01'', zero_rent_token)]\<rparr>)\<rparr>,
        \<lparr>cache_file = Some \<lparr>lastUpdated = 90000001, tokens = [(''0xab01'', zero_rent_token)]\<rparr>,
          writable = True\<rparr>)"
    by (simp add: handler_defs response_ok_def token_address_def cached_fields_def
          sample_api_token_def zero_rent_token_def toLowerCase_def lower_char_def)
  have h2: "handler sample_env (Response 200 (JsonArray [])) late_clock stale_disk get_request
     = (\<lparr>status = 200, body = CacheBody (Some \<lparr>lastUpdated = 90000002, tokens = []\<rparr>)\<rparr>,
        \<lparr>cache_file = Some \<lparr>lastUpdated = 90000001, tokens = []\<rparr>, writable = True\<rparr>)"
    by (simp add: handler_defs response_ok_def)
  have p1: "answers
        (run [Lookup 90000000 ''0xAb01'',
              Completed 90000003
                (Replied 200 (CacheBody (Some \<lparr>lastUpdated = 90000002,
                                                tokens = [(''0xab01'', zero_rent_token)]\<rparr>)))]
           init_session)
       = [(''0xAb01'', Some zero_rent_token)]"
    by (simp add: init_session_def lookup_call_def completion_def initializeCache_def isFresh_def
          settle_def Let_def client_defs)
  have p2: "answers
        (run [Lookup 90000000 ''0xAb01'',
              Completed 90000003
                (Replied 200 (CacheBody (Some \<lparr>lastUpdated = 90000002, tokens = []\<rparr>)))]
           init_session)
       = [(''0xAb01'', None)]"
    by (simp add: init_session_def lookup_call_def completion_def initializeCache_def isFresh_def
          settle_def Let_def client_defs)
  show ?thesis by (simp only: h1 h2 fst_conv response.simps p1 p2 simp_thms)
qed

text \<open>
  Claim C1, amended. Let \<open>s\<close> be any state a page reaches, and let \<open>N \<ge> 1\<close> callers
  call \<^verbatim>\<open>getTokenDetails\<close>, and through it \<^verbatim>\<open>initializeCache\<close>, one after the other
  before any request completes, each at an instant at which the cache of the page is not
  fresh. At most one request to the cache service is outstanding in \<open>s\<close>, and calls
  made at any instants issue at most one. After the \<open>N\<close> calls exactly one request is
  outstanding, which the calls issued if none was outstanding before them and which
  they joined otherwise; all of them, and the callers suspended before them, wait for
  that one initialization, none has returned, and the map is untouched. When the
  request completes, no request is outstanding, nobody waits, and every one of these
  callers returns the lookup of its address in one and the same map: the map loaded
  from the tokens of the answer when the answer is a success that carries tokens, and
  the map as it was before otherwise.
\<close>

theorem initializeCache_single_flight:
  assumes "s = run es init_session"
    and "cs \<noteq> []"
    and "\<forall>c \<in> set cs. \<not> isFresh (api s) (fst c)"
    and "s1 = run (map (case_prod Lookup) cs) s"
  shows "inflight (api s) \<le> 1
       \<and> (\<forall>ds. fetches (api (run (map (case_prod Lookup) ds) s)) \<le> fetches (api s) + 1)
       \<and> fetches (api s1)
           = fetches (api s) + (if initializationPromise (api s) = None then 1 else 0)
       \<and> inflight (api s1) = 1
       \<and> (\<exists>p. initializationPromise (api s1) = Some p
              \<and> waiting s1 = map (\<lambda>a. (p, a)) (map snd (waiting s) @ map snd cs))
       \<and> answers s1 = answers s
       \<and> cache (api s1) = cache (api s)
       \<and> (\<forall>tm r.
             inflight (api (step (Completed tm r) s1)) = 0
           \<and> waiting (step (Completed tm r) s1) = []
           \<and> answers (step (Completed tm r) s1)
               = answers s
                 @ map (\<lambda>a. (a, getTokenDetails
                                  (case r of
                                     FetchFailed \<Rightarrow> cache (api s)
                                   | Replied code b \<Rightarrow>
                                       if response_ok code then
                                         (case payload_tokens b of
                                            Some toks \<Rightarrow> load_tokens (map snd toks) Map.empty
                                          | None \<Rightarrow> cache (api s))
                                       else cache (api s))
                                  a))
                     (map snd (waiting s) @ map snd cs))"
proof -
  have inv: "session_inv s" using assms(1) inv_reachable by simp
  then have sf: "single_flight_inv (api s)" by (simp add: session_inv_def)
  then have bound: "inflight (api s) \<le> 1"
    by (simp add: single_flight_inv_def split: if_splits)
  have burst: "\<forall>ds. fetches (api (run (map (case_prod Lookup) ds) s)) \<le> fetches (api s) + 1"
    using burst_at_most_one by blast
  obtain c0 cs' where cs: "cs = c0 # cs'" using assms(2) by (cases cs) auto
  define p where "p = (case initializationPromise (api s) of None \<Rightarrow> fetches (api s) | Some q \<Rightarrow> q)"
  define st1 where "st1 = (case initializationPromise (api s) of
      None \<Rightarrow> (api s)\<lparr>initializationPromise := Some (fetches (api s)),
                        fetches := fetches (api s) + 1, inflight := inflight (api s) + 1\<rparr>
    | Some q \<Rightarrow> api s)"
  have old: "map (\<lambda>w. (p, snd w)) (waiting s) = waiting s"
  proof (cases "initializationPromise (api s)")
    case None
    then have "waiting s = []" using inv by (cases "waiting s") (auto simp: session_inv_def)
    then show ?thesis by simp
  next
    case (Some q)
    then have "\<forall>w \<in> set (waiting s). fst w = p"
      using inv by (auto simp: session_inv_def p_def)
    then show ?thesis by (rule same_promise)
  qed
  have s1: "s1 = s\<lparr>api := st1, waiting := waiting s @ map (\<lambda>c. (p, snd c)) cs\<rparr>"
  proof (cases "initializationPromise (api s)")
    case None
    show ?thesis
      using burst_started [OF None, of c0 cs'] assms(3,4) None
      by (simp add: cs p_def st1_def)
  next
    case (Some q)
    show ?thesis
      using burst_joined [OF Some assms(3)] assms(4) Some
      by (simp add: p_def st1_def)
  qed
  have w1: "waiting s1 = map (\<lambda>a. (p, a)) (map snd (waiting s) @ map snd cs)"
    using old by (simp add: s1 comp_def)
  have pr: "initializationPromise st1 = Some p"
    by (simp add: st1_def p_def split: option.splits)
  have one: "inflight st1 = 1"
    using sf by (simp add: st1_def single_flight_inv_def split: option.splits)
  have f1: "fetches st1 = fetches (api s) + (if initializationPromise (api s) = None then 1 else 0)"
    by (simp add: st1_def split: option.splits)
  have c1: "cache st1 = cache (api s)"
    by (simp add: st1_def split: option.splits)
  have fin: "inflight (api (step (Completed tm r) s1)) = 0
           \<and> waiting (step (Completed tm r) s1) = []
           \<and> answers (step (Completed tm r) s1)
               = answers s
                 @ map (\<lambda>a. (a, getTokenDetails
                                  (case r of
                                     FetchFailed \<Rightarrow> cache (api s)
                                   | Replied code b \<Rightarrow>
                                       if response_ok code then
                                         (case payload_tokens b of
                                            Some toks \<Rightarrow> load_tokens (map snd toks) Map.empty
                                          | None \<Rightarrow> cache (api s))
                                       else cache (api s))
                                  a))
                     (map snd (waiting s) @ map snd cs)" for tm r
  proof -
    have m: "cache (settle tm r st1)
               = (case r of
                    FetchFailed \<Rightarrow> cache (api s)
                  | Replied code b \<Rightarrow>
                      if response_ok code then
                        (case payload_tokens b of
                           Some toks \<Rightarrow> load_tokens (map snd toks) Map.empty
                         | None \<Rightarrow> cache (api s))
                      else cache (api s))"
      using cache_settle [of st1 tm r] one unfolding c1 by simp
    have all: "filter (\<lambda>w. fst w = p) (waiting s1) = waiting s1"
      by (simp add: w1 filter_map comp_def)
    have none: "filter (\<lambda>w. fst w \<noteq> p) (waiting s1) = []"
      by (simp add: w1 filter_map comp_def)
    have api1: "api s1 = st1" and ans1: "answers s1 = answers s"
      by (simp_all add: s1)
    show ?thesis
      using settle_completes [OF one, of tm r]
      by (simp add: completion_def Let_def api1 ans1 pr all none m [symmetric])
         (simp add: w1 comp_def)
  qed
  show ?thesis
    using bound burst fin pr one f1 c1 w1 by (auto simp: s1)
qed

text \<open>
  A page whose first initialization failed is called by three callers more than a day
  later. They share initialization number 1, the second request of the page; when it is
  answered with a cache that holds the sample token, the two callers that ask for it
  receive it, whatever the case of the address they give, and the third receives
  nothing.
\<close>

lemma sample_history_state:
  "run sample_history init_session
     = \<lparr> api = \<lparr> cache = Map.empty, cacheTimestamp = Some 2, initializationPromise = None,
                 fetches = 1, inflight = 0 \<rparr>,
         waiting = [], answers = [(''0xAb01'', None)] \<rparr>"
  by (simp add: sample_history_def init_session_def init_client_def lookup_call_def
        completion_def initializeCache_def isFresh_def settle_def loaded_def Let_def
        getTokenDetails_def)

lemma sample_snapshot:
  "getTokenDetails (load_tokens [zero_rent_token] Map.empty) ''0xAb01'' = Some zero_rent_token"
  "getTokenDetails (load_tokens [zero_rent_token] Map.empty) ''0xab01'' = Some zero_rent_token"
  "getTokenDetails (load_tokens [zero_rent_token] Map.empty) ''0xFFFF'' = None"
  by (simp_all add: getTokenDetails_def toLowerCase_def lower_char_def zero_rent_token_def)

theorem initializeCache_single_flight_witness:
  "inflight (api (run sample_history init_session)) \<le> 1
   \<and> fetches (api (run (map (case_prod Lookup) sample_callers) (run sample_history init_session))) = 2
   \<and> inflight (api (run (map (case_prod Lookup) sample_callers) (run sample_history init_session))) = 1
   \<and> answers (step (Completed 90000005 (Replied 200 (CacheBody (cache_file stale_disk))))
               (run (map (case_prod Lookup) sample_callers) (run sample_history init_session)))
       = [(''0xAb01'', None), (''0xAb01'', Some zero_rent_token), (''0xab01'', Some zero_rent_token),
          (''0xFFFF'', None)]"
proof -
  let ?s = "run sample_history init_session"
  let ?s1 = "run (map (case_prod Lookup) sample_callers) ?s"
  have ne: "sample_callers \<noteq> []" by (simp add: sample_callers_def)
  have stale: "\<forall>c \<in> set sample_callers. \<not> isFresh (api ?s) (fst c)"
    by (simp add: sample_history_state sample_callers_def isFresh_def CACHE_MAX_AGE_MS_def)
  note t = initializeCache_single_flight [OF refl ne stale refl]
  have toks: "payload_tokens (CacheBody (cache_file stale_disk)) = Some [(''0xab01'', zero_rent_token)]"
    by (simp add: payload_tokens_def stale_disk_def)
  have ok: "response_ok 200" by (simp add: response_ok_def)
  from t have
    "answers (step (Completed 90000005 (Replied 200 (CacheBody (cache_file stale_disk)))) ?s1)
       = answers ?s
         @ map (\<lambda>a. (a, getTokenDetails
                          (case Replied 200 (CacheBody (cache_file stale_disk)) of
                             FetchFailed \<Rightarrow> cache (api ?s)
                           | Replied code b \<Rightarrow>
                               if response_ok code then
                                 (case payload_tokens b of
                                    Some toks \<Rightarrow> load_tokens (map snd toks) Map.empty
                                  | None \<Rightarrow> cache (api ?s))
                               else cache (api ?s))
                          a))
             (map snd (waiting ?s) @ map snd sample_callers)"
    by blast
  also have "\<dots> = answers ?s
         @ map (\<lambda>a. (a, getTokenDetails (load_tokens [zero_rent_token] Map.empty) a))
             (map snd (waiting ?s) @ map snd sample_callers)"
    by (simp add: toks ok del: load_tokens.simps)
  also have "\<dots> = [(''0xAb01'', None), (''0xAb01'', Some zero_rent_token),
                   (''0xab01'', Some zero_rent_token), (''0xFFFF'', None)]"
    by (simp add: sample_history_state sample_callers_def sample_snapshot del: load_tokens.simps)
  finally have a: "answers (step (Completed 90000005 (Replied 200 (CacheBody (cache_file stale_disk)))) ?s1)
       = [(''0xAb01'', None), (''0xAb01'', Some zero_rent_token),
          (''0xab01'', Some zero_rent_token), (''0xFFFF'', None)]" .
  from t have "fetches (api ?s1)
       = fetches (api ?s) + (if initializationPromise (api ?s) = None then 1 else 0)"
    by blast
  also have "\<dots> = 2" by (simp add: sample_history_state)
  finally have f: "fetches (api ?s1) = 2" .
  from t have i1: "inflight (api ?s1) = 1" and i0: "inflight (api ?s) \<le> 1"
    by blast+
  show ?thesis using i0 f i1 a by blast
qed

section \<open>Properties of reading an offer\<close>

lemma getDecimals_default: "rpc.decimals node a = None \<Longrightarrow> getDecimals node a = 18"
  by (simp add: getDecimals_def)

lemma decimals_or_default_failed:
  "or_empty tok = [] \<or> rpc.decimals node (or_empty tok) = None \<Longrightarrow>
     decimals_or_default node tok = 18"
  by (auto simp: decimals_or_default_def or_empty_def getDecimals_def split: option.splits)

lemma fetchOfferRpc_Some:
  assumes "fetchOfferRpc number_of nodes oid chainId = Some y"
  shows "\<exists>od :: OfferData.
            offerTokenAddress y = or_empty (slot0 od)
          \<and> offerTokenDecimals y
              = Some (decimals_or_default (nodes (if chainId = 100 then Gnosis else Ethereum)) (slot0 od))
          \<and> buyerTokenAddress y = or_empty (slot1 od)
          \<and> buyerTokenDecimals y
              = Some (decimals_or_default (nodes (if chainId = 100 then Gnosis else Ethereum)) (slot1 od))"
proof (cases "number_of oid")
  case (Num n)
  show ?thesis
  proof (cases "showOffer (nodes (if chainId = 100 then Gnosis else Ethereum)) n")
    case None
    with Num assms show ?thesis
      by (simp add: fetchOfferRpc_def Let_def split: if_splits)
  next
    case (Some od)
    with Num assms have
      "offerTokenAddress y = or_empty (slot0 od)
       \<and> offerTokenDecimals y
           = Some (decimals_or_default (nodes (if chainId = 100 then Gnosis else Ethereum)) (slot0 od))
       \<and> buyerTokenAddress y = or_empty (slot1 od)
       \<and> buyerTokenDecimals y
           = Some (decimals_or_default (nodes (if chainId = 100 then Gnosis else Ethereum)) (slot1 od))"
      by (auto simp: fetchOfferRpc_def Let_def split: if_splits)
    then show ?thesis by blast
  qed
qed (use assms in \<open>simp_all add: fetchOfferRpc_def Let_def\<close>)

text \<open>
  Claim C8. \<^verbatim>\<open>getDecimals\<close> answers 18 for every address on which the \<^verbatim>\<open>decimals()\<close>
  call fails. Whether \<^verbatim>\<open>fetchOfferRpc\<close> returns an offer does not depend on the answers
  to the \<^verbatim>\<open>decimals()\<close> calls: replacing them by any others, failures included, turns
  no offer into \<open>null\<close> and no \<open>null\<close> into an offer. In an offer that is returned,
  the decimals of a token whose address is absent or whose call failed are 18.
\<close>

theorem decimals_default_18:
  "(rpc.decimals node a = None \<longrightarrow> getDecimals node a = 18)
   \<and> ((fetchOfferRpc number_of (\<lambda>c. (nodes c)\<lparr>rpc.decimals := d\<rparr>) oid chainId = None)
        = (fetchOfferRpc number_of nodes oid chainId = None))
   \<and> (\<forall>y. fetchOfferRpc number_of nodes oid chainId = Some y \<longrightarrow>
          ((offerTokenAddress y = []
              \<or> rpc.decimals (nodes (if chainId = 100 then Gnosis else Ethereum)) (offerTokenAddress y) = None)
             \<longrightarrow> offerTokenDecimals y = Some 18)
        \<and> ((buyerTokenAddress y = []
              \<or> rpc.decimals (nodes (if chainId = 100 then Gnosis else Ethereum)) (buyerTokenAddress y) = None)
             \<longrightarrow> buyerTokenDecimals y = Some 18))"
proof (intro conjI allI impI)
  show "getDecimals node a = 18" if "rpc.decimals node a = None"
    using that by (rule getDecimals_default)
next
  show "(fetchOfferRpc number_of (\<lambda>c. (nodes c)\<lparr>rpc.decimals := d\<rparr>) oid chainId = None)
        = (fetchOfferRpc number_of nodes oid chainId = None)"
    by (simp add: fetchOfferRpc_def Let_def split: jsnum.splits option.splits)
next
  fix y
  assume y: "fetchOfferRpc number_of nodes oid chainId = Some y"
  let ?node = "nodes (if chainId = 100 then Gnosis else Ethereum)"
  from fetchOfferRpc_Some [OF y] obtain od :: OfferData where
    o: "offerTokenAddress y = or_empty (slot0 od)"
       "offerTokenDecimals y = Some (decimals_or_default ?node (slot0 od))"
       "buyerTokenAddress y = or_empty (slot1 od)"
       "buyerTokenDecimals y = Some (decimals_or_default ?node (slot1 od))"
    by blast
  show "offerTokenDecimals y = Some 18"
    if "offerTokenAddress y = [] \<or> rpc.decimals ?node (offerTokenAddress y) = None"
    using that o(1,2) decimals_or_default_failed [of "slot0 od" ?node] by simp
  show "buyerTokenDecimals y = Some 18"
    if "buyerTokenAddress y = [] \<or> rpc.decimals ?node (buyerTokenAddress y) = None"
    using that o(3,4) decimals_or_default_failed [of "slot1 od" ?node] by simp
qed

text \<open>
  On the sample node every \<^verbatim>\<open>decimals()\<close> call fails; offer 7 is returned, with 18
  decimals for both tokens.
\<close>

lemma sample_fetch:
  "fetchOfferRpc sample_number_of (\<lambda>c. sample_node) ''7'' 100
     = Some (sample_yam\<lparr>buyerTokenDecimals := Some 18\<rparr>)"
  by (simp add: fetchOfferRpc_def sample_number_of_def sample_node_def sample_yam_def Let_def
        MAX_SAFE_INTEGER_def or_empty_def decimals_or_default_def getDecimals_def)

theorem decimals_default_18_witness:
  "getDecimals sample_node ''0xAb01'' = 18
   \<and> fetchOfferRpc sample_number_of (\<lambda>c. sample_node) ''7'' 100
       = Some (sample_yam\<lparr>buyerTokenDecimals := Some 18\<rparr>)
   \<and> offerTokenDecimals (sample_yam\<lparr>buyerTokenDecimals := Some 18\<rparr>) = Some 18
   \<and> buyerTokenDecimals (sample_yam\<lparr>buyerTokenDecimals := Some 18\<rparr>) = Some 18"
proof -
  have fails: "rpc.decimals sample_node a = None" for a
    by (simp add: sample_node_def)
  from decimals_default_18
         [where node = sample_node and a = "''0xAb01''" and number_of = sample_number_of
            and nodes = "\<lambda>c. sample_node" and d = "\<lambda>a. None" and oid = "''7''"
            and chainId = 100]
  show ?thesis using fails sample_fetch by simp
qed

section \<open>Properties of the enrichment\<close>

lemmas enrich_defs =
  combineOfferData_def created_instant_def offerTokenDetails_def getTokenDetails_def
  isStableToken_def getStableMeta_def STABLE_TOKENS_def getChainFromOffer_def toLowerCase_def
  lower_char_def priceNum_def amountNum_def reversePriceNum_def formatUnitsNum_def or18_def
  official_price_def price_diff_def price_diff_pct_def rent_of_def supply_of_def
  official_yield_pct_def offer_yield_pct_def offer_yield_diff_def offer_yield_diff_pct_def
  exchangeMeta_def offer_symbol_def getStatusFromOffer_def str_truthy_def str_or_def
  to_number_def Let_def

text \<open>Offer 7 with an empty registry: the price is 2.00, its reverse 0.50.\<close>

lemma sample_enrichment: "combineOfferData sample_host Map.empty sample_yam = Inr sample_offer"
  by (simp add: enrich_defs sample_host_def sample_yam_def sample_offer_def sample_digits_def)

lemma combineOfferData_fields:
  assumes "combineOfferData h reg y = Inr off"
  shows "reversePrice off = toFixed (digits h) (reversePriceNum y) 2"
    and "officialPriceUsd off = Some (official_price (offerTokenDetails reg y))"
    and "priceDiff off = Some (price_diff y (offerTokenDetails reg y))"
    and "priceDiffPct off = price_diff_pct y (offerTokenDetails reg y)"
    and "tokenDetails off = offerTokenDetails reg y"
  using assms by (auto simp: combineOfferData_def Let_def split: sum.splits)

text \<open>An offer read from the chain is always enriched: its creation date is \<open>'0'\<close>.\<close>

lemma combineOfferData_total:
  "YamOffer.createdAt y = ''0'' \<Longrightarrow> \<exists>off. combineOfferData h reg y = Inr off"
  by (simp add: combineOfferData_def created_instant_def Let_def)

text \<open>
  For every raw offer that is enriched the reverse price is the rendering with two
  decimals of \<open>1 / priceDisplay\<close>, and the quotient is taken whatever the price is.
\<close>

lemma reversePrice_rendering:
  assumes "combineOfferData h reg y = Inr off"
  shows "reversePrice off = toFixed (digits h) (js_div (Num 1) (priceNum y)) 2"
  using combineOfferData_fields(1) [OF assms]
  by (simp add: reversePriceNum_def)

text \<open>
  Claim C4, on the code. Offer 7 with a price of zero: the reverse price is \<open>1 / 0\<close>,
  which is infinite, and the enriched offer shows the string \<open>Infinity\<close>. The yield of
  the offer, which divides by the same price a few lines below, is guarded and left
  undefined for this offer.
\<close>

theorem reversePrice_zero_price_is_Infinity:
  "priceNum (sample_yam\<lparr>YamOffer.price := 0\<rparr>) = Num 0
   \<and> reversePriceNum (sample_yam\<lparr>YamOffer.price := 0\<rparr>) = PosInf
   \<and> map_sum id reversePrice
       (combineOfferData sample_host Map.empty (sample_yam\<lparr>YamOffer.price := 0\<rparr>))
       = Inr ''Infinity''
   \<and> map_sum id offerYieldPct
       (combineOfferData sample_host [''0xab01'' \<mapsto> zero_rent_token]
          (sample_yam\<lparr>YamOffer.price := 0\<rparr>))
       = Inr None"
  by (simp add: enrich_defs sample_host_def sample_yam_def sample_digits_def zero_rent_token_def)

text \<open>
  Claim C5, on the code. A property of the registry with a yearly rent of zero, 1000
  tokens and a price of 50, offered at 50: both yields are \<open>0\<close> and their relative
  difference is \<open>0 / 0\<close>, which is \<open>NaN\<close>. A property whose total supply is missing
  has the official yield \<open>NaN\<close>, and one whose total supply is zero has it infinite.
\<close>

theorem yield_figures_leak_NaN:
  "map_sum id offerYieldDiffPct
     (combineOfferData sample_host [''0xab01'' \<mapsto> zero_rent_token]
        (sample_yam\<lparr>YamOffer.price := 50000000\<rparr>))
     = Inr (Some NaN)
   \<and> map_sum id officialYieldPct
     (combineOfferData sample_host
        [''0xab01'' \<mapsto> zero_rent_token\<lparr>CachedToken.netRentYear := Some (Num 5000),
                                          CachedToken.totalTokens := None\<rparr>]
        sample_yam)
     = Inr (Some NaN)
   \<and> map_sum id officialYieldPct
     (combineOfferData sample_host
        [''0xab01'' \<mapsto> zero_rent_token\<lparr>CachedToken.netRentYear := Some (Num 5000),
                                          CachedToken.totalTokens := Some (Num 0)\<rparr>]
        sample_yam)
     = Inr (Some PosInf)"
  by (simp add: enrich_defs sample_host_def sample_yam_def sample_digits_def zero_rent_token_def)

text \<open>
  Claim C6 as stated fails: the same offer of the chain, enriched twice with the same
  registry at two instants, gives two results, which differ in the creation date.
\<close>

theorem combineOfferData_clock_counterexample:
  "combineOfferData (sample_host\<lparr>now := 1000\<rparr>) Map.empty sample_yam
     \<noteq> combineOfferData (sample_host\<lparr>now := 2000\<rparr>) Map.empty sample_yam"
  by (simp add: combineOfferData_def created_instant_def sample_yam_def Let_def)

lemma host_now_irrelevant:
  "exchangeMeta (h\<lparr>now := t\<rparr>) y = exchangeMeta h y"
  "offer_symbol (h\<lparr>now := t\<rparr>) y td = offer_symbol h y td"
  by (simp_all add: exchangeMeta_def offer_symbol_def Let_def split: option.splits)

text \<open>
  Claim C6, amended. Enriching the same raw offer with the same registry and the same
  host answers at two instants gives results that agree in every field but the creation
  date; they agree in that field too when the raw offer carries a creation date (one
  that is neither empty nor \<open>'0'\<close>). An offer whose creation date is empty or
  \<open>'0'\<close>, as that of every offer read from the chain, carries none, and its creation
  date is the instant of the enrichment.
\<close>

theorem combineOfferData_deterministic_up_to_createdAt:
  "map_sum id (\<lambda>off. off\<lparr>Offer.createdAt := 0\<rparr>) (combineOfferData (h\<lparr>now := t1\<rparr>) reg y)
     = map_sum id (\<lambda>off. off\<lparr>Offer.createdAt := 0\<rparr>) (combineOfferData (h\<lparr>now := t2\<rparr>) reg y)
   \<and> (YamOffer.createdAt y \<noteq> [] \<and> YamOffer.createdAt y \<noteq> ''0'' \<longrightarrow>
        combineOfferData (h\<lparr>now := t1\<rparr>) reg y = combineOfferData (h\<lparr>now := t2\<rparr>) reg y)
   \<and> (YamOffer.createdAt y = [] \<or> YamOffer.createdAt y = ''0'' \<longrightarrow>
        map_sum id Offer.createdAt (combineOfferData (h\<lparr>now := t1\<rparr>) reg y) = Inr t1)"
  by (auto simp: combineOfferData_def created_instant_def Let_def host_now_irrelevant
        split: option.splits)

theorem combineOfferData_deterministic_up_to_createdAt_witness:
  "combineOfferData (sample_host\<lparr>now := 1000\<rparr>) Map.empty
       (sample_yam\<lparr>YamOffer.createdAt := ''1700000000''\<rparr>)
     = combineOfferData (sample_host\<lparr>now := 2000\<rparr>) Map.empty
         (sample_yam\<lparr>YamOffer.createdAt := ''1700000000''\<rparr>)
   \<and> map_sum id Offer.createdAt
        (combineOfferData (sample_host\<lparr>now := 1000\<rparr>) Map.empty
           (sample_yam\<lparr>YamOffer.createdAt := ''1700000000''\<rparr>))
       = Inr 1700000000000
   \<and> map_sum id Offer.createdAt (combineOfferData (sample_host\<lparr>now := 1000\<rparr>) Map.empty sample_yam)
       = Inr 1000"
proof -
  have dated: "YamOffer.createdAt (sample_yam\<lparr>YamOffer.createdAt := ''1700000000''\<rparr>) \<noteq> []
             \<and> YamOffer.createdAt (sample_yam\<lparr>YamOffer.createdAt := ''1700000000''\<rparr>) \<noteq> ''0''"
    by simp
  have undated: "YamOffer.createdAt sample_yam = ''0''"
    by (simp add: sample_yam_def)
  have inst: "map_sum id Offer.createdAt
        (combineOfferData (sample_host\<lparr>now := 1000\<rparr>) Map.empty
           (sample_yam\<lparr>YamOffer.createdAt := ''1700000000''\<rparr>))
       = Inr 1700000000000"
    by (simp add: combineOfferData_def created_instant_def Let_def sample_host_def
          sample_parseInt_def)
  from combineOfferData_deterministic_up_to_createdAt
         [where h = sample_host and ?t1.0 = 1000 and reg = Map.empty and ?t2.0 = 2000
            and y = "sample_yam\<lparr>YamOffer.createdAt := ''1700000000''\<rparr>"]
       combineOfferData_deterministic_up_to_createdAt
         [where h = sample_host and ?t1.0 = 1000 and reg = Map.empty and ?t2.0 = 2000
            and y = sample_yam]
  show ?thesis using dated undated inst by simp
qed

text \<open>
  Claim C10. For every raw offer that is enriched and whose sold token has no details
  from the registry, or has details whose price is missing or zero, the official price
  is \<open>1\<close>, the price difference is the displayed price minus \<open>1\<close>, and the relative
  difference is defined: it is that difference divided by \<open>1\<close>, times \<open>100\<close>. The
  last two conjuncts give the same two values for the exact numbers of this model; the
  numbers of the page are these values rounded to the nearest double.
\<close>

theorem missing_price_reference_is_one:
  assumes "combineOfferData h reg y = Inr off"
    and "offerTokenDetails reg y = None
         \<or> (\<exists>t. offerTokenDetails reg y = Some t
               \<and> (CachedToken.tokenPrice t = None \<or> CachedToken.tokenPrice t = Some (Num 0)))"
  shows "officialPriceUsd off = Some (Num 1)
       \<and> priceDiff off = Some (js_sub (priceNum y) (Num 1))
       \<and> priceDiffPct off = Some (js_mul (js_div (js_sub (priceNum y) (Num 1)) (Num 1)) (Num 100))
       \<and> priceDiff off
           = Some (Num (of_nat (YamOffer.price y) / 10 ^ or18 (buyerTokenDecimals y) - 1))
       \<and> priceDiffPct off
           = Some (Num ((of_nat (YamOffer.price y) / 10 ^ or18 (buyerTokenDecimals y) - 1) * 100))"
proof -
  have one: "official_price (offerTokenDetails reg y) = Num 1"
    using assms(2) by (auto simp: official_price_def)
  show ?thesis
    using combineOfferData_fields(2-4) [OF assms(1)]
    by (simp add: one price_diff_def price_diff_pct_def priceNum_def formatUnitsNum_def)
qed

theorem missing_price_reference_is_one_witness:
  "offerTokenDetails Map.empty sample_yam = None
   \<and> combineOfferData sample_host Map.empty sample_yam = Inr sample_offer
   \<and> officialPriceUsd sample_offer = Some (Num 1)
   \<and> priceDiff sample_offer = Some (Num 1)
   \<and> priceDiffPct sample_offer = Some (Num 100)"
proof -
  have none: "offerTokenDetails Map.empty sample_yam = None"
    by (simp add: offerTokenDetails_def getTokenDetails_def)
  from missing_price_reference_is_one [OF sample_enrichment disjI1 [OF none]]
  show ?thesis using none sample_enrichment
    by (simp add: sample_offer_def)
qed

section \<open>Properties of the purchase dialog\<close>

text \<open>
  While a transaction is pending or an approval runs, typing an amount, \<^verbatim>\<open>Cancel\<close>,
  approving and confirming do nothing.
\<close>

lemma pending_blocks:
  assumes "txStatus st = TxPending \<or> isApproving st"
  shows "act h st (AmountInput v) = st" and "act h st CancelButton = st"
    and "act h st ApproveButton = st" and "act h st ConfirmButton = st"
  using assms by (auto simp: act_def disabled_def)

text \<open>The two controls without a \<^verbatim>\<open>disabled\<close> attribute act in every state of the dialog.\<close>

lemma max_button_always_acts:
  "showBuyModal st \<Longrightarrow> offer st \<noteq> None \<Longrightarrow> act h st MaxButton = setMaxAmount h st"
  by (simp add: act_def rendered_def disabled_def)

text \<open>
  Claim C7, on the code. An approval is pending. Typing an amount is refused, but the
  \<^verbatim>\<open>Max\<close> button replaces the amount of 1 by 0.5.
\<close>

theorem max_button_enabled_while_pending:
  "txStatus pending_page = TxPending
   \<and> act sample_host pending_page (AmountInput ''0.5'') = pending_page
   \<and> act sample_host pending_page MaxButton = pending_page\<lparr>buyAmount := ''0.5''\<rparr>"
  by (simp add: act_def rendered_def disabled_def setMaxAmount_def handleSetMaxAmount_def
        pending_page_def sample_host_def sample_offer_def sample_parseUnits_def
        sample_formatUnits_def PRECISION_def bn_div_def Let_def)

end
